theory Spec2Isabelle
  imports Complex_Main "HOL-Library.List_Lexorder"
begin

section \<open>Errors raised by the importer\<close>

text \<open>
  A JSON path is the list of keys and indices that the loader carries for its error
  messages (\<^verbatim>\<open>geometry_path + ['bones']\<close>, \<^verbatim>\<open>bones_path + [i]\<close>).
\<close>

datatype pytok = Key string | Idx nat

type_synonym json_path = "pytok list"

text \<open>The Python types named in the \<^verbatim>\<open>isinstance\<close> checks of the loader.\<close>

datatype pytype = TInt | TFloat | TStr | TBool | TList | TDict

text \<open>
  The messages of \<^verbatim>\<open>FileIsNotAModelException\<close> are f-strings built from a JSON path, the
  name of the checked thing and the offending keys or types. They are kept structured:
  one constructor for each format string in \<^verbatim>\<open>importer.py\<close>.
\<close>

datatype fail_msg =
    IsNotAList json_path string
  | HasInvalidLength json_path string nat nat
  | IsNotInstanceOfList json_path string "pytype list"
  | IsMissingProperties json_path string "string set"
  | HasUnexpectedProperties json_path string "string set"
  | IsNotAnInstanceOf json_path string "pytype list"
  | UnableToParseFormatVersion
  | UnsuportedFormatVersion
  | IsInvalidGeometryName json_path string
  | DescriptionIsMissingIdentifier json_path

datatype error =
    FileIsNotAModelException fail_msg
  | ImportingNotImplementedError string json_path
  | ValueError
  | KeyError string
  | TypeError
  | AttributeError
  | IndexError
  | RecursionError

definition then_do :: "error + unit \<Rightarrow> error + 'a \<Rightarrow> error + 'a" where
  "then_do check rest = (case check of Inl e \<Rightarrow> Inl e | Inr _ \<Rightarrow> rest)"

definition bind_err :: "error + 'a \<Rightarrow> ('a \<Rightarrow> error + 'b) \<Rightarrow> error + 'b" where
  "bind_err m f = (case m of Inl e \<Rightarrow> Inl e | Inr x \<Rightarrow> f x)"

section \<open>Version resolution (\<^verbatim>\<open>pick_version_parser\<close>)\<close>

subsection \<open>Python's \<^verbatim>\<open>str.split('.')\<close>, \<^verbatim>\<open>int(str)\<close> and \<^verbatim>\<open>str(int)\<close>\<close>

text \<open>
  \<^verbatim>\<open>version.split('.')\<close> cuts at every dot and always returns at least one piece
  (\<^verbatim>\<open>''.split('.') == ['']\<close>).
\<close>

fun split_dot :: "string \<Rightarrow> string list" where
  "split_dot [] = [[]]"
| "split_dot (c # cs) =
     (if c = CHR ''.'' then [] # split_dot cs
      else (case split_dot cs of p # ps \<Rightarrow> (c # p) # ps | [] \<Rightarrow> [[c]]))"

text \<open>
  \<^verbatim>\<open>int(s)\<close> in base 10 on an ASCII string: surrounding whitespace is dropped, one sign
  is allowed, then come decimal digits in which single underscores may separate digits.
  Anything else raises \<^verbatim>\<open>ValueError\<close> (here \<open>None\<close>).
\<close>

definition is_space :: "char \<Rightarrow> bool" where
  "is_space c = (of_char c \<in> {9, 10, 11, 12, 13, 28, 29, 30, 31, 32 :: nat})"

definition is_digit :: "char \<Rightarrow> bool" where
  "is_digit c = (48 \<le> (of_char c :: nat) \<and> (of_char c :: nat) \<le> 57)"

definition digit_val :: "char \<Rightarrow> nat" where
  "digit_val c = of_char c - 48"

fun parse_digits :: "string \<Rightarrow> nat \<Rightarrow> bool \<Rightarrow> nat option" where
  "parse_digits [] acc prev_digit = (if prev_digit then Some acc else None)"
| "parse_digits (c # cs) acc prev_digit =
     (if is_digit c then parse_digits cs (acc * 10 + digit_val c) True
      else if c = CHR ''_'' \<and> prev_digit then parse_digits cs acc False
      else None)"

definition strip :: "string \<Rightarrow> string" where
  "strip s = rev (dropWhile is_space (rev (dropWhile is_space s)))"

definition py_int :: "string \<Rightarrow> int option" where
  "py_int s =
     (case strip s of
        [] \<Rightarrow> None
      | c # cs \<Rightarrow>
          if c = CHR ''-'' then map_option (\<lambda>n. - int n) (parse_digits cs 0 False)
          else if c = CHR ''+'' then map_option int (parse_digits cs 0 False)
          else map_option int (parse_digits (c # cs) 0 False))"

text \<open>\<^verbatim>\<open>str(i)\<close> of an integer: its decimal digits, with a minus sign when negative.\<close>

fun str_nat :: "nat \<Rightarrow> string" where
  "str_nat n =
     (if n < 10 then [char_of (48 + n)]
      else str_nat (n div 10) @ [char_of (48 + n mod 10)])"

declare str_nat.simps [simp del]

definition py_str :: "int \<Rightarrow> string" where
  "py_str i = (if i < 0 then CHR ''-'' # str_nat (nat (- i)) else str_nat (nat i))"

text \<open>\<^verbatim>\<open>'.'.join(parts)\<close>\<close>

fun join_dot :: "string list \<Rightarrow> string" where
  "join_dot [] = []"
| "join_dot [p] = p"
| "join_dot (p # q # ps) = p @ CHR ''.'' # join_dot (q # ps)"

subsection \<open>The function\<close>

text \<open>
  \<^verbatim>\<open>to_tuple\<close> maps \<^verbatim>\<open>int\<close> over the pieces and turns any exception into
  \<^verbatim>\<open>FileIsNotAModelException('Unable to parse format version number: ...')\<close>.
\<close>

fun all_some :: "'a option list \<Rightarrow> 'a list option" where
  "all_some [] = Some []"
| "all_some (None # _) = None"
| "all_some (Some x # xs) = map_option ((#) x) (all_some xs)"

definition to_tuple :: "string \<Rightarrow> error + int list" where
  "to_tuple version =
     (case all_some (map py_int (split_dot version)) of
        None \<Rightarrow> Inl (FileIsNotAModelException UnableToParseFormatVersion)
      | Some t \<Rightarrow> Inr t)"

fun to_tuples :: "string list \<Rightarrow> error + int list list" where
  "to_tuples [] = Inr []"
| "to_tuples (p # ps) =
     bind_err (to_tuple p) (\<lambda>t. bind_err (to_tuples ps) (\<lambda>ts. Inr (t # ts)))"

text \<open>
  The loop over the sorted parsers: the first tuple that is \<open>\<le>\<close> the declared one
  (Python compares tuples lexicographically, as \<open>\<le>\<close> on lists does here).
\<close>

fun best_choice :: "int list list \<Rightarrow> int list \<Rightarrow> int list option" where
  "best_choice [] t_version = None"
| "best_choice (t_parser # rest) t_version =
     (if t_parser \<le> t_version then Some t_parser else best_choice rest t_version)"

definition pick_version_parser :: "string list \<Rightarrow> string \<Rightarrow> error + string" where
  "pick_version_parser parsers version =
     bind_err (to_tuples parsers) (\<lambda>t_parsers.
       bind_err (to_tuple version) (\<lambda>t_version.
         case best_choice (rev (sort t_parsers)) t_version of
           None \<Rightarrow> Inl (FileIsNotAModelException UnsuportedFormatVersion)
         | Some best \<Rightarrow> Inr (join_dot (map py_str best))))"


section \<open>Three-component vectors\<close>

text \<open>
  The numpy arrays of \<^verbatim>\<open>common.py\<close> hold three floating-point numbers. They are
  triples of reals here; the arithmetic of floats is idealised to exact arithmetic.
\<close>

type_synonym vec3 = "real \<times> real \<times> real"

fun vadd :: "vec3 \<Rightarrow> vec3 \<Rightarrow> vec3" where
  "vadd (a, b, c) (x, y, z) = (a + x, b + y, c + z)"

fun vsub :: "vec3 \<Rightarrow> vec3 \<Rightarrow> vec3" where
  "vsub (a, b, c) (x, y, z) = (a - x, b - y, c - z)"

fun vmul :: "vec3 \<Rightarrow> vec3 \<Rightarrow> vec3" where
  "vmul (a, b, c) (x, y, z) = (a * x, b * y, c * z)"

fun vscale :: "vec3 \<Rightarrow> real \<Rightarrow> vec3" where
  "vscale (a, b, c) k = (a * k, b * k, c * k)"

fun vdiv :: "vec3 \<Rightarrow> real \<Rightarrow> vec3" where
  "vdiv (a, b, c) k = (a / k, b / k, c / k)"

text \<open>\<^verbatim>\<open>v[i]\<close> for the indices 0, 1, 2 that \<^verbatim>\<open>range(3)\<close> produces.\<close>

fun vget :: "vec3 \<Rightarrow> nat \<Rightarrow> real" where
  "vget (a, b, c) i = (if i = 0 then a else if i = 1 then b else c)"

text \<open>\<^verbatim>\<open>v[[0, 2, 1]]\<close> and \<^verbatim>\<open>v.xzy\<close>: the axis permutation.\<close>

fun perm_021 :: "vec3 \<Rightarrow> vec3" where
  "perm_021 (a, b, c) = (a, c, b)"

text \<open>\<^verbatim>\<open>np.linalg.norm\<close>\<close>

fun norm3 :: "vec3 \<Rightarrow> real" where
  "norm3 (a, b, c) = sqrt (a * a + b * b + c * c)"

section \<open>The rotation-continuity solver (\<^verbatim>\<open>pick_closest_rotation\<close>)\<close>

text \<open>\<^verbatim>\<open>arr = np.zeros(3); arr[i] = 360\<close>\<close>

definition arr360 :: "nat \<Rightarrow> vec3" where
  "arr360 i = (if i = 0 then (360, 0, 0) else if i = 1 then (0, 360, 0) else (0, 0, 360))"

text \<open>
  The first \<^verbatim>\<open>while\<close> loop of \<^verbatim>\<open>_pick_closet_location\<close>: add 360 on axis \<open>i\<close> while the
  choice is below the target there, and stop as soon as the distance would grow.
\<close>

function add_loop :: "nat \<Rightarrow> vec3 \<Rightarrow> real \<times> vec3 \<Rightarrow> real \<times> vec3" where
  "add_loop i close_to (distance, choice) =
     (if vget choice i < vget close_to i then
        (let new_choice = vadd choice (arr360 i);
             new_distance = norm3 (vsub new_choice close_to)
         in if new_distance > distance then (distance, choice)
            else add_loop i close_to (new_distance, new_choice))
      else (distance, choice))"
  by pat_completeness auto
termination
proof (relation "measure (\<lambda>(i, close_to, distance, choice).
                   nat \<lceil>(vget close_to i - vget choice i) / 360\<rceil>)", goal_cases)
  case 1
  show ?case by simp
next
  case (2 i close_to distance choice new_choice new_distance)
  obtain a b c where ch: "choice = (a, b, c)" by (cases choice)
  have step: "vget new_choice i = vget choice i + 360"
    using 2(2) by (simp add: ch arr360_def)
  have pos: "0 < (vget close_to i - vget choice i) / 360"
    using 2(1) by simp
  have eq: "(vget close_to i - vget new_choice i) / 360
          = (vget close_to i - vget choice i) / 360 - 1"
    unfolding step by (simp add: field_simps)
  have "\<lceil>(vget close_to i - vget new_choice i) / 360\<rceil>
          = \<lceil>(vget close_to i - vget choice i) / 360\<rceil> - 1"
    unfolding eq by (rule ceiling_diff_one)
  moreover from pos have "0 < \<lceil>(vget close_to i - vget choice i) / 360\<rceil>"
    by simp
  ultimately show ?case by simp
qed

text \<open>The second \<^verbatim>\<open>while\<close> loop: subtract 360 while the choice is above the target.\<close>

function sub_loop :: "nat \<Rightarrow> vec3 \<Rightarrow> real \<times> vec3 \<Rightarrow> real \<times> vec3" where
  "sub_loop i close_to (distance, choice) =
     (if vget choice i > vget close_to i then
        (let new_choice = vsub choice (arr360 i);
             new_distance = norm3 (vsub new_choice close_to)
         in if new_distance > distance then (distance, choice)
            else sub_loop i close_to (new_distance, new_choice))
      else (distance, choice))"
  by pat_completeness auto
termination
proof (relation "measure (\<lambda>(i, close_to, distance, choice).
                   nat \<lceil>(vget choice i - vget close_to i) / 360\<rceil>)", goal_cases)
  case 1
  show ?case by simp
next
  case (2 i close_to distance choice new_choice new_distance)
  obtain a b c where ch: "choice = (a, b, c)" by (cases choice)
  have step: "vget new_choice i = vget choice i - 360"
    using 2(2) by (simp add: ch arr360_def)
  have pos: "0 < (vget choice i - vget close_to i) / 360"
    using 2(1) by simp
  have eq: "(vget new_choice i - vget close_to i) / 360
          = (vget choice i - vget close_to i) / 360 - 1"
    unfolding step by (simp add: field_simps)
  have "\<lceil>(vget new_choice i - vget close_to i) / 360\<rceil>
          = \<lceil>(vget choice i - vget close_to i) / 360\<rceil> - 1"
    unfolding eq by (rule ceiling_diff_one)
  moreover from pos have "0 < \<lceil>(vget choice i - vget close_to i) / 360\<rceil>"
    by simp
  ultimately show ?case by simp
qed

declare add_loop.simps [simp del] sub_loop.simps [simp del]

text \<open>
  \<^verbatim>\<open>_pick_closet_location\<close>: start from \<^verbatim>\<open>modify\<close> and run both loops on the axes
  0, 1, 2 in turn; it returns the distance with the choice.
\<close>

definition pick_closet_location :: "vec3 \<Rightarrow> vec3 \<Rightarrow> real \<times> vec3" where
  "pick_closet_location modify close_to =
     foldl (\<lambda>state i. sub_loop i close_to (add_loop i close_to state))
       (norm3 (vsub modify close_to), modify) [0, 1, 2]"

text \<open>
  The second starting point, the expression
  \<^verbatim>\<open>(modify + np.array([180, 180 + original_rotation[1] * 2, 180])) * np.array([1, -1, 1])\<close>.
\<close>

definition flip_candidate :: "vec3 \<Rightarrow> vec3 \<Rightarrow> vec3" where
  "flip_candidate modify original_rotation =
     vmul (vadd modify (180, 180 + vget original_rotation 1 * 2, 180)) (1, - 1, 1)"

definition pick_closest_rotation :: "vec3 \<Rightarrow> vec3 \<Rightarrow> vec3 option \<Rightarrow> vec3" where
  "pick_closest_rotation modify close_to original_rotation =
     (let original_rotation =
            (case original_rotation of None \<Rightarrow> (0, 0, 0) | Some r \<Rightarrow> r);
          (distance1, choice1) = pick_closet_location modify close_to;
          (distance2, choice2) =
             pick_closet_location (flip_candidate modify original_rotation) close_to
      in if distance2 < distance1 then choice2 else choice1)"

text \<open>
  The reparametrisation as the specification words it,
  \<open>flip(v, rest) = (v.x + 180, -(v.y) + 180 + 2 * rest.y, v.z + 180)\<close>, for comparison
  with \<open>flip_candidate\<close>.
\<close>

definition spec_flip :: "vec3 \<Rightarrow> vec3 \<Rightarrow> vec3" where
  "spec_flip v rest =
     (vget v 0 + 180, - (vget v 1) + 180 + 2 * vget rest 1, vget v 2 + 180)"

subsection \<open>Decoding a Minecraft rotation into a rotation matrix\<close>

type_synonym mat3 = "vec3 \<times> vec3 \<times> vec3"

definition rot_x :: "real \<Rightarrow> mat3" where
  "rot_x a = ((1, 0, 0), (0, cos a, - sin a), (0, sin a, cos a))"

definition rot_y :: "real \<Rightarrow> mat3" where
  "rot_y a = ((cos a, 0, sin a), (0, 1, 0), (- sin a, 0, cos a))"

definition rot_z :: "real \<Rightarrow> mat3" where
  "rot_z a = ((cos a, - sin a, 0), (sin a, cos a, 0), (0, 0, 1))"

fun dot3 :: "vec3 \<Rightarrow> vec3 \<Rightarrow> real" where
  "dot3 (a, b, c) (x, y, z) = a * x + b * y + c * z"

fun mat_mul :: "mat3 \<Rightarrow> mat3 \<Rightarrow> mat3" where
  "mat_mul (r1, r2, r3) ((a, b, c), (d, e, f), (g, h, k)) =
     ((dot3 r1 (a, d, g), dot3 r1 (b, e, h), dot3 r1 (c, f, k)),
      (dot3 r2 (a, d, g), dot3 r2 (b, e, h), dot3 r2 (c, f, k)),
      (dot3 r3 (a, d, g), dot3 r3 (b, e, h), dot3 r3 (c, f, k)))"

text \<open>
  Modelled from the spec: the matrix of \<^verbatim>\<open>mathutils.Euler(angles, 'XZY')\<close>, a function of
  the Blender library that is not under the sources. The composition order is fixed,
  X then Z then Y: the rotation about X is applied first, so the matrix is the product
  \<open>R\<^sub>y R\<^sub>z R\<^sub>x\<close>.
\<close>

fun euler_xzy_to_matrix :: "vec3 \<Rightarrow> mat3" where
  "euler_xzy_to_matrix (ex, ey, ez) = mat_mul (rot_y ey) (mat_mul (rot_z ez) (rot_x ex))"

text \<open>
  \<^verbatim>\<open>_mc_rotate\<close> of \<^verbatim>\<open>importer.py\<close> decodes a rotation in Minecraft format: the Euler
  angles are \<^verbatim>\<open>(np.array(mcrotation)[[0, 2, 1]] * np.array([1, 1, -1])) * math.pi/180\<close>,
  in the order XZY.
\<close>

definition mc_rotate_euler :: "vec3 \<Rightarrow> vec3" where
  "mc_rotate_euler mcrotation =
     vdiv (vscale (vmul (perm_021 mcrotation) (1, 1, - 1)) pi) 180"

definition mc_rotation_matrix :: "vec3 \<Rightarrow> mat3" where
  "mc_rotation_matrix mcrotation = euler_xzy_to_matrix (mc_rotate_euler mcrotation)"


text \<open>
  Two rotation vectors that differ by whole turns on each axis; used to state what the
  two loops preserve.
\<close>

definition same_mod_360 :: "vec3 \<Rightarrow> vec3 \<Rightarrow> bool" where
  "same_mod_360 v w =
     (\<exists>k l m :: int. w = vadd v (360 * of_int k, 360 * of_int l, 360 * of_int m))"


section \<open>Objects of the scene (\<^verbatim>\<open>ObjectMcProperties\<close>)\<close>

datatype MCObjType = CUBE | BONE | BOTH | LOCATOR

text \<open>\<^verbatim>\<open>ObjectId\<close>: the named tuple \<^verbatim>\<open>(name, bone_name)\<close>.\<close>

type_synonym ObjectId = "string \<times> string"

text \<open>
  What the wrapper reads from a Blender object: its type, its name, its world matrix
  and, for an armature, the pose bones by name. The matrix type \<open>'m\<close> belongs to the
  Blender library and stays abstract.
\<close>

datatype bpy_type = ARMATURE | MESH | EMPTY

record 'm pose_bone =
  pb_name :: string
  pb_matrix :: 'm

record 'm bpy_object =
  obj_type :: bpy_type
  obj_name :: string
  obj_matrix_world :: 'm
  obj_pose_bones :: "(string \<times> 'm pose_bone) list"

record ('id, 'm) ObjectMcProperties =
  thisobj_id :: ObjectId
  thisobj :: "'m bpy_object"
  mcparent :: "'id option"
  mcchildren :: "'id list"
  mctype :: MCObjType


text \<open>\<^verbatim>\<open>str.split('.')[0]\<close>: the text before the first dot.\<close>

definition before_first_dot :: "string \<Rightarrow> string" where
  "before_first_dot s = takeWhile (\<lambda>c. c \<noteq> CHR ''.'') s"

text \<open>\<^verbatim>\<open>ObjectMcProperties.name\<close>; indexing the pose bones raises \<^verbatim>\<open>KeyError\<close> for an
  unknown bone name.\<close>

definition name :: "('id, 'm) ObjectMcProperties \<Rightarrow> error + string" where
  "name objprop =
     (if obj_type (thisobj objprop) = ARMATURE then
        (case map_of (obj_pose_bones (thisobj objprop)) (snd (thisobj_id objprop)) of
           None \<Rightarrow> Inl (KeyError (snd (thisobj_id objprop)))
         | Some bone \<Rightarrow> Inr (pb_name bone))
      else Inr (before_first_dot (obj_name (thisobj objprop))))"


section \<open>Pivot resolution (\<^verbatim>\<open>get_mcpivot\<close>)\<close>







text \<open>\<^verbatim>\<open>MINECRAFT_SCALE_FACTOR\<close>\<close>

definition MINECRAFT_SCALE_FACTOR :: real where
  "MINECRAFT_SCALE_FACTOR = 16"










section \<open>Numbers written to the output document (\<^verbatim>\<open>get_vect_json\<close>)\<close>















section \<open>Name conflicts and export (\<^verbatim>\<open>get_name_conflicts\<close>)\<close>

text \<open>
  The loop of \<^verbatim>\<open>get_name_conflicts\<close> over \<^verbatim>\<open>object_properties.values()\<close>, with the list
  \<^verbatim>\<open>names\<close> of the names seen so far. The function returns a string: the first name
  met a second time, or the empty string.
\<close>

fun get_name_conflicts_loop ::
  "('id, 'm) ObjectMcProperties list \<Rightarrow> string list \<Rightarrow> error + string" where
  "get_name_conflicts_loop [] names = Inr []"
| "get_name_conflicts_loop (objprop # rest) names =
     (if mctype objprop \<notin> {BONE, BOTH} then get_name_conflicts_loop rest names
      else bind_err (name objprop) (\<lambda>n.
             if n \<in> set names then Inr n
             else get_name_conflicts_loop rest (names @ [n])))"

definition get_name_conflicts ::
  "('k \<times> ('id, 'm) ObjectMcProperties) list \<Rightarrow> error + string" where
  "get_name_conflicts object_properties =
     get_name_conflicts_loop (map snd object_properties) []"

text \<open>The exported names of the nodes of type \<open>BONE\<close> or \<open>BOTH\<close>, in iteration order.\<close>

definition bone_names :: "('k \<times> ('id, 'm) ObjectMcProperties) list \<Rightarrow> (error + string) list" where
  "bone_names object_properties =
     map name (filter (\<lambda>p. mctype p \<in> {BONE, BOTH}) (map snd object_properties))"

text \<open>
  Selections for concrete runs, as \<^verbatim>\<open>get_object_mcproperties\<close> builds them for parentless
  empties, which are of type \<open>BONE\<close>: two empties that Blender names \<open>arm\<close> and
  \<open>arm.001\<close>, and two empties named \<open>.a\<close> and \<open>.b\<close>, whose exported name is empty.
\<close>

definition bone_at ::
  "string \<Rightarrow> ObjectId \<times> (ObjectId, vec3) ObjectMcProperties" where
  "bone_at n =
     ((n, []),
      \<lparr>thisobj_id = (n, []),
       thisobj = \<lparr>obj_type = EMPTY, obj_name = n, obj_matrix_world = (0, 0, 0),
                   obj_pose_bones = []\<rparr>,
       mcparent = None, mcchildren = [], mctype = BONE\<rparr>)"

definition arm_properties :: "(ObjectId \<times> (ObjectId, vec3) ObjectMcProperties) list" where
  "arm_properties = [bone_at ''arm'', bone_at ''arm.001'']"

definition dotted_properties :: "(ObjectId \<times> (ObjectId, vec3) ObjectMcProperties) list" where
  "dotted_properties = [bone_at ''.a'', bone_at ''.b'']"

section \<open>Building the imported geometry (\<^verbatim>\<open>ImportGeometry.build\<close>)\<close>

text \<open>
  The objects of the import keep a reference to the Blender object created for them
  (\<^verbatim>\<open>blend_empty\<close>, \<^verbatim>\<open>blend_cube\<close>), \<^verbatim>\<open>None\<close> until the object exists. A reference is the
  position of the object in the scene.
\<close>

record ImportLocator =
  il_name :: string
  il_position :: vec3
  il_blend_empty :: "nat option"

record ImportCube =
  ic_uv :: "real \<times> real"
  ic_mirror :: bool
  ic_origin :: vec3
  ic_pivot :: vec3
  ic_size :: vec3
  ic_rotation :: vec3
  ic_blend_cube :: "nat option"

record ImportBone =
  ib_name :: string
  ib_parent :: "string option"
  ib_cubes :: "ImportCube list"
  ib_locators :: "ImportLocator list"
  ib_pivot :: vec3
  ib_rotation :: vec3
  ib_mirror :: bool
  ib_blend_empty :: "nat option"

text \<open>
  What the build reads and writes of a Blender object: its name, its location, its
  custom properties, its parent and the inverse matrix stored with the parent link.
  The mesh data (vertices and UV layers) are left out.
\<close>

record 'm blend_object =
  bo_name :: string
  bo_location :: vec3
  bo_custom :: "string list"
  bo_parent :: "nat option"
  bo_matrix_parent_inverse :: "'m option"

text \<open>\<^verbatim>\<open>self.bones[import_bone.name] = import_bone\<close>: a later bone of the same name
  replaces the earlier one, at the earlier position.\<close>

fun dict_set :: "(string \<times> 'v) list \<Rightarrow> string \<Rightarrow> 'v \<Rightarrow> (string \<times> 'v) list" where
  "dict_set [] k v = [(k, v)]"
| "dict_set ((k', v') # rest) k v =
     (if k' = k then (k, v) # rest else (k', v') # dict_set rest k v)"

definition ImportGeometry_bones :: "ImportBone list \<Rightarrow> (string \<times> ImportBone) list" where
  "ImportGeometry_bones loader_bones =
     foldl (\<lambda>bones import_bone. dict_set bones (ib_name import_bone) import_bone) []
       loader_bones"

text \<open>\<^verbatim>\<open>bpy.ops.object.empty_add\<close> and \<^verbatim>\<open>primitive_cube_add\<close> at \<open>(0, 0, 0)\<close>: the new
  object is \<^verbatim>\<open>context.object\<close>, here the last of the scene.\<close>

definition new_object :: "'m blend_object" where
  "new_object = \<lparr>bo_name = [], bo_location = (0, 0, 0), bo_custom = [], bo_parent = None,
                  bo_matrix_parent_inverse = None\<rparr>"

text \<open>\<^verbatim>\<open>_mc_pivot\<close>: \<^verbatim>\<open>obj.location += np.array(mcpivot)[[0, 2, 1]] / MINECRAFT_SCALE_FACTOR\<close>\<close>

definition mc_pivot :: "'m blend_object \<Rightarrow> vec3 \<Rightarrow> 'm blend_object" where
  "mc_pivot obj mcpivot =
     obj\<lparr>bo_location := vadd (bo_location obj) (vdiv (perm_021 mcpivot) MINECRAFT_SCALE_FACTOR)\<rparr>"

text \<open>The first loop of \<^verbatim>\<open>build\<close>: create the objects and set their pivots.\<close>

fun create_cubes :: "'m blend_object list \<Rightarrow> ImportCube list
    \<Rightarrow> 'm blend_object list \<times> ImportCube list" where
  "create_cubes scene [] = (scene, [])"
| "create_cubes scene (cube # rest) =
     (let cube_obj = (if ic_mirror cube then new_object\<lparr>bo_custom := [''mc_mirror'']\<rparr>
                      else new_object);
          cube' = cube\<lparr>ic_blend_cube := Some (length scene)\<rparr>;
          (scene', rest') = create_cubes (scene @ [mc_pivot cube_obj (ic_pivot cube)]) rest
      in (scene', cube' # rest'))"

fun create_locators :: "'m blend_object list \<Rightarrow> ImportLocator list
    \<Rightarrow> 'm blend_object list \<times> ImportLocator list" where
  "create_locators scene [] = (scene, [])"
| "create_locators scene (locator # rest) =
     (let locator_obj = (mc_pivot new_object (il_position locator))\<lparr>bo_name := il_name locator\<rparr>;
          locator' = locator\<lparr>il_blend_empty := Some (length scene)\<rparr>;
          (scene', rest') = create_locators (scene @ [locator_obj]) rest
      in (scene', locator' # rest'))"

fun create_objects :: "'m blend_object list \<Rightarrow> (string \<times> ImportBone) list
    \<Rightarrow> 'm blend_object list \<times> (string \<times> ImportBone) list" where
  "create_objects scene [] = (scene, [])"
| "create_objects scene ((k, bone) # rest) =
     (let bone_obj = (mc_pivot new_object (ib_pivot bone))
                       \<lparr>bo_name := ib_name bone, bo_custom := [''mc_is_bone'']\<rparr>;
          bone_ref = length scene;
          (scene1, cubes) = create_cubes (scene @ [bone_obj]) (ib_cubes bone);
          (scene2, locators) = create_locators scene1 (ib_locators bone);
          bone' = bone\<lparr>ib_blend_empty := Some bone_ref, ib_cubes := cubes,
                       ib_locators := locators\<rparr>;
          (scene3, rest') = create_objects scene2 rest
      in (scene3, (k, bone') # rest'))"

text \<open>
  One parent link with its inverse matrix:
  \<^verbatim>\<open>child.parent = parent; child.matrix_parent_inverse = parent.matrix_world.inverted()\<close>.
  A reference that is still \<^verbatim>\<open>None\<close> has no such attributes. The inverted world matrix
  that Blender computes after \<^verbatim>\<open>context.view_layer.update()\<close> is the parameter
  \<open>inverted_world\<close>.
\<close>

definition set_parent ::
  "('m blend_object list \<Rightarrow> nat \<Rightarrow> 'm) \<Rightarrow> nat option \<Rightarrow> nat option \<Rightarrow> 'm blend_object list
     \<Rightarrow> error + 'm blend_object list" where
  "set_parent inverted_world child parent scene =
     (case (child, parent) of
        (Some c, Some p) \<Rightarrow>
          if c < length scene \<and> p < length scene then
            Inr (scene[c := (scene ! c)\<lparr>bo_parent := Some p,
                    bo_matrix_parent_inverse := Some (inverted_world scene p)\<rparr>])
          else Inl AttributeError
      | _ \<Rightarrow> Inl AttributeError)"

fun set_parents ::
  "('m blend_object list \<Rightarrow> nat \<Rightarrow> 'm) \<Rightarrow> nat option list \<Rightarrow> nat option
     \<Rightarrow> 'm blend_object list \<Rightarrow> error + 'm blend_object list" where
  "set_parents inverted_world [] parent scene = Inr scene"
| "set_parents inverted_world (child # rest) parent scene =
     bind_err (set_parent inverted_world child parent scene)
       (set_parents inverted_world rest parent)"

text \<open>
  The second loop of \<^verbatim>\<open>build\<close>, for one bone: the bone is linked to its parent only if
  \<^verbatim>\<open>bone.parent is not None and bone.parent in self.bones\<close>; then its cubes and its
  locators are linked to the bone.
\<close>

definition parent_bone ::
  "('m blend_object list \<Rightarrow> nat \<Rightarrow> 'm) \<Rightarrow> (string \<times> ImportBone) list \<Rightarrow> ImportBone
     \<Rightarrow> 'm blend_object list \<Rightarrow> error + 'm blend_object list" where
  "parent_bone inverted_world bones bone scene =
     bind_err
       (case ib_parent bone of
          None \<Rightarrow> Inr scene
        | Some parent_name \<Rightarrow>
            (case map_of bones parent_name of
               None \<Rightarrow> Inr scene
             | Some parent \<Rightarrow>
                 set_parent inverted_world (ib_blend_empty bone) (ib_blend_empty parent) scene))
       (\<lambda>scene1.
          bind_err (set_parents inverted_world (map ic_blend_cube (ib_cubes bone))
                      (ib_blend_empty bone) scene1)
            (set_parents inverted_world (map il_blend_empty (ib_locators bone))
               (ib_blend_empty bone)))"

fun parent_objects ::
  "('m blend_object list \<Rightarrow> nat \<Rightarrow> 'm) \<Rightarrow> (string \<times> ImportBone) list
     \<Rightarrow> (string \<times> ImportBone) list \<Rightarrow> 'm blend_object list \<Rightarrow> error + 'm blend_object list" where
  "parent_objects inverted_world bones [] scene = Inr scene"
| "parent_objects inverted_world bones ((k, bone) # rest) scene =
     bind_err (parent_bone inverted_world bones bone scene)
       (parent_objects inverted_world bones rest)"

text \<open>
  The creation and the parenting of \<^verbatim>\<open>build\<close>, from the bones of the geometry and the
  scene before the import. It returns the scene and the bones with their references.
  The third loop, which rotates the objects after the parenting, is left out.
\<close>

definition build ::
  "('m blend_object list \<Rightarrow> nat \<Rightarrow> 'm) \<Rightarrow> (string \<times> ImportBone) list \<Rightarrow> 'm blend_object list
     \<Rightarrow> error + ('m blend_object list \<times> (string \<times> ImportBone) list)" where
  "build inverted_world bones scene =
     (let (scene1, bones1) = create_objects scene bones
      in bind_err (parent_objects inverted_world bones1 bones1 scene1)
           (\<lambda>scene2. Inr (scene2, bones1)))"

definition import_bone :: "string \<Rightarrow> string option \<Rightarrow> ImportBone" where
  "import_bone n p =
     \<lparr>ib_name = n, ib_parent = p, ib_cubes = [], ib_locators = [], ib_pivot = (0, 0, 0),
      ib_rotation = (0, 0, 0), ib_mirror = False, ib_blend_empty = None\<rparr>"


text \<open>The references held by a bone, and the objects that receive a parent when the
  bone is processed.\<close>

definition bone_refs :: "ImportBone \<Rightarrow> nat option list" where
  "bone_refs bone =
     ib_blend_empty bone # map ic_blend_cube (ib_cubes bone)
       @ map il_blend_empty (ib_locators bone)"

definition has_parent_bone :: "(string \<times> ImportBone) list \<Rightarrow> ImportBone \<Rightarrow> bool" where
  "has_parent_bone bones bone =
     (case ib_parent bone of None \<Rightarrow> False
      | Some parent_name \<Rightarrow> map_of bones parent_name \<noteq> None)"

definition link_children :: "(string \<times> ImportBone) list \<Rightarrow> ImportBone \<Rightarrow> nat option list" where
  "link_children bones bone =
     (if has_parent_bone bones bone then [ib_blend_empty bone] else [])
       @ map ic_blend_cube (ib_cubes bone) @ map il_blend_empty (ib_locators bone)"

text \<open>A geometry for a concrete run: the bone \<open>a\<close> declares the parent \<open>zz\<close>, which is
  no bone of the geometry, and the bone \<open>b\<close> declares the parent \<open>a\<close>.\<close>

definition dangling_bones :: "(string \<times> ImportBone) list" where
  "dangling_bones =
     ImportGeometry_bones [import_bone ''a'' (Some ''zz''), import_bone ''b'' (Some ''a'')]"

section \<open>The schema loader (\<^verbatim>\<open>ModelLoader\<close>)\<close>

subsection \<open>JSON values and the checks\<close>

text \<open>
  A parsed JSON document. A dictionary is the list of its items in order; numbers are
  \<^verbatim>\<open>int\<close> or \<^verbatim>\<open>float\<close>, the floats idealised as reals.
\<close>

datatype json =
    JNull
  | JBool bool
  | JInt int
  | JFloat real
  | JStr string
  | JList "json list"
  | JDict "(string \<times> json) list"

text \<open>\<^verbatim>\<open>isinstance(obj, types)\<close>; in Python \<^verbatim>\<open>bool\<close> is a subclass of \<^verbatim>\<open>int\<close>.\<close>

fun isinstance :: "json \<Rightarrow> pytype list \<Rightarrow> bool" where
  "isinstance JNull types = False"
| "isinstance (JBool b) types = (TBool \<in> set types \<or> TInt \<in> set types)"
| "isinstance (JInt n) types = (TInt \<in> set types)"
| "isinstance (JFloat x) types = (TFloat \<in> set types)"
| "isinstance (JStr s) types = (TStr \<in> set types)"
| "isinstance (JList xs) types = (TList \<in> set types)"
| "isinstance (JDict d) types = (TDict \<in> set types)"

text \<open>\<^verbatim>\<open>set(obj.keys())\<close>\<close>

definition keys :: "(string \<times> json) list \<Rightarrow> string set" where
  "keys obj = set (map fst obj)"

text \<open>\<^verbatim>\<open>obj[k]\<close> on a dictionary\<close>

definition getitem :: "(string \<times> json) list \<Rightarrow> string \<Rightarrow> error + json" where
  "getitem obj k = (case map_of obj k of None \<Rightarrow> Inl (KeyError k) | Some v \<Rightarrow> Inr v)"

definition assert_py :: "bool \<Rightarrow> fail_msg \<Rightarrow> error + unit" where
  "assert_py expr msg = (if \<not> expr then Inl (FileIsNotAModelException msg) else Inr ())"

definition assert_is_vector :: "string \<Rightarrow> json \<Rightarrow> nat \<Rightarrow> pytype list \<Rightarrow> json_path \<Rightarrow> error + unit" where
  "assert_is_vector nm obj len types json_path =
     (case obj of
        JList xs \<Rightarrow>
          then_do (assert_py (length xs = len)
                     (HasInvalidLength json_path nm (length xs) len))
            (assert_py (list_all (\<lambda>i. isinstance i types) xs)
               (IsNotInstanceOfList json_path nm types))
      | _ \<Rightarrow> Inl (FileIsNotAModelException (IsNotAList json_path nm)))"

definition assert_has_required_keys ::
  "string \<Rightarrow> string set \<Rightarrow> string set \<Rightarrow> json_path \<Rightarrow> error + unit" where
  "assert_has_required_keys what has_keys required_keys json_path =
     (let missing_keys = required_keys - has_keys
      in if missing_keys \<noteq> {}
         then Inl (FileIsNotAModelException (IsMissingProperties json_path what missing_keys))
         else Inr ())"

definition assert_has_accepted_keys_only ::
  "string \<Rightarrow> string set \<Rightarrow> string set \<Rightarrow> json_path \<Rightarrow> error + unit" where
  "assert_has_accepted_keys_only what has_keys accepted_keys json_path =
     (let additional_keys = has_keys - accepted_keys
      in if additional_keys \<noteq> {}
         then Inl (FileIsNotAModelException
                     (HasUnexpectedProperties json_path what additional_keys))
         else Inr ())"

definition assert_is_type :: "string \<Rightarrow> json \<Rightarrow> pytype list \<Rightarrow> json_path \<Rightarrow> error + unit" where
  "assert_is_type nm obj types json_path =
     (if \<not> isinstance obj types
      then Inl (FileIsNotAModelException (IsNotAnInstanceOf json_path nm types))
      else Inr ())"

text \<open>
  The check \<^verbatim>\<open>_assert_is_type(nm, obj, (dict,), path)\<close> followed by the use of the object
  as a dictionary, and the same for a list.
\<close>

definition as_dict :: "string \<Rightarrow> json \<Rightarrow> json_path \<Rightarrow> error + (string \<times> json) list" where
  "as_dict nm obj json_path =
     (case obj of
        JDict d \<Rightarrow> Inr d
      | _ \<Rightarrow> Inl (FileIsNotAModelException (IsNotAnInstanceOf json_path nm [TDict])))"

definition as_list :: "string \<Rightarrow> json \<Rightarrow> json_path \<Rightarrow> error + json list" where
  "as_list nm obj json_path =
     (case obj of
        JList xs \<Rightarrow> Inr xs
      | _ \<Rightarrow> Inl (FileIsNotAModelException (IsNotAnInstanceOf json_path nm [TList])))"

text \<open>\<^verbatim>\<open>if k in obj: ...\<close> for an optional key of a dictionary\<close>

definition if_present :: "(string \<times> json) list \<Rightarrow> string \<Rightarrow> 'r \<Rightarrow> (json \<Rightarrow> error + 'r) \<Rightarrow> error + 'r" where
  "if_present obj k result f = (case map_of obj k of None \<Rightarrow> Inr result | Some v \<Rightarrow> f v)"

text \<open>
  The parser version of a declared \<^verbatim>\<open>format_version\<close>,
  \<^verbatim>\<open>pick_version_parser(('1.12.0', '1.8.0'), format_version)\<close>. A value that is not a
  string has no \<^verbatim>\<open>split\<close>; the bare \<^verbatim>\<open>except\<close> of \<^verbatim>\<open>to_tuple\<close> turns that into the same
  exception as a string that does not parse.
\<close>

definition parser_version :: "json \<Rightarrow> error + string" where
  "parser_version format_version =
     (case format_version of
        JStr s \<Rightarrow> pick_version_parser [''1.12.0'', ''1.8.0''] s
      | _ \<Rightarrow> bind_err (to_tuples [''1.12.0'', ''1.8.0''])
                (\<lambda>_. Inl (FileIsNotAModelException UnableToParseFormatVersion)))"

subsection \<open>\<^verbatim>\<open>_load_format_version\<close>\<close>

definition startswith :: "string \<Rightarrow> string \<Rightarrow> bool" where
  "startswith s p = (take (length p) s = p)"

fun check_geometry_names :: "string list \<Rightarrow> error + unit" where
  "check_geometry_names [] = Inr ()"
| "check_geometry_names (k # ks) =
     then_do (assert_py (startswith k ''geometry.'' \<or> k \<in> set [''debug'', ''format_version''])
                (IsInvalidGeometryName [] k))
       (check_geometry_names ks)"

definition load_format_version :: "json \<Rightarrow> error + json" where
  "load_format_version data =
     (case data of
        JDict d \<Rightarrow>
          then_do (assert_has_required_keys ''model file'' (keys d) {''format_version''} [])
            (bind_err (getitem d ''format_version'') (\<lambda>format_version.
             bind_err (parser_version format_version) (\<lambda>pv.
               if pv = ''1.12.0'' then
                 then_do (assert_has_required_keys ''model file'' (keys d)
                            {''minecraft:geometry'', ''format_version''} [])
                   (then_do (assert_has_accepted_keys_only ''model file'' (keys d)
                               {''minecraft:geometry'', ''format_version'', ''cape''} [])
                      (if ''cape'' \<in> keys d then Inl (ImportingNotImplementedError ''cape'' [])
                       else Inr format_version))
               else if pv = ''1.8.0'' then
                 then_do (check_geometry_names (map fst d))
                   (if ''debug'' \<in> keys d then Inl (ImportingNotImplementedError ''debug'' [])
                    else Inr format_version)
               else Inl (FileIsNotAModelException UnsuportedFormatVersion))))
      | _ \<Rightarrow> Inl AttributeError)"

subsection \<open>\<^verbatim>\<open>_load_geometry\<close>\<close>

text \<open>
  \<^verbatim>\<open>'identifier' not in desc\<close> and \<^verbatim>\<open>desc['identifier']\<close> are applied to a value that has
  not been checked to be a dictionary: membership in a list compares the elements, in a
  string it looks for a substring, and other values raise \<^verbatim>\<open>TypeError\<close>; indexing
  anything but a dictionary by a string raises \<^verbatim>\<open>TypeError\<close>.
\<close>

fun is_substring :: "string \<Rightarrow> string \<Rightarrow> bool" where
  "is_substring p [] = (p = [])"
| "is_substring p (c # cs) = (startswith (c # cs) p \<or> is_substring p cs)"

definition py_in :: "string \<Rightarrow> json \<Rightarrow> error + bool" where
  "py_in k obj =
     (case obj of
        JDict d \<Rightarrow> Inr (k \<in> keys d)
      | JList xs \<Rightarrow> Inr (JStr k \<in> set xs)
      | JStr s \<Rightarrow> Inr (is_substring k s)
      | _ \<Rightarrow> Inl TypeError)"

definition py_getitem :: "json \<Rightarrow> string \<Rightarrow> error + json" where
  "py_getitem obj k = (case obj of JDict d \<Rightarrow> getitem d k | _ \<Rightarrow> Inl TypeError)"

fun find_geometry_1_12 ::
  "string \<Rightarrow> json list \<Rightarrow> nat \<Rightarrow> error + ((string \<times> json) list \<times> json_path)" where
  "find_geometry_1_12 geometry_name [] i = Inl ValueError"
| "find_geometry_1_12 geometry_name (geometry # rest) i =
     (let path = [Key ''minecraft:geometry'', Idx i] in
      bind_err (as_dict ''gometry'' geometry path) (\<lambda>g.
      then_do (assert_has_required_keys ''geometry'' (keys g) {''description'', ''bones''} path)
     (then_do (assert_has_accepted_keys_only ''geometry'' (keys g) {''description'', ''bones''} path)
     (bind_err (getitem g ''description'') (\<lambda>desc.
      bind_err (py_in ''identifier'' desc) (\<lambda>has_identifier.
        if \<not> has_identifier
        then Inl (FileIsNotAModelException (DescriptionIsMissingIdentifier path))
        else bind_err (py_getitem desc ''identifier'') (\<lambda>identifier.
               if identifier = JStr geometry_name \<or> geometry_name = []
               then Inr (g, path)
               else find_geometry_1_12 geometry_name rest (Suc i))))))))"

definition geometry_keys_1_8 :: "string set" where
  "geometry_keys_1_8 =
     {''debug'', ''visible_bounds_width'', ''visible_bounds_height'', ''visible_bounds_offset'',
      ''texturewidth'', ''textureheight'', ''cape'', ''bones''}"

fun find_geometry_1_8 ::
  "string \<Rightarrow> (string \<times> json) list \<Rightarrow> error + ((string \<times> json) list \<times> json_path)" where
  "find_geometry_1_8 geometry_name [] = Inl ValueError"
| "find_geometry_1_8 geometry_name ((k, geometry) # rest) =
     (if k \<in> set [''format_version'', ''debug''] then find_geometry_1_8 geometry_name rest
      else
        (let path = [Key k] in
         bind_err (as_dict ''gometry'' geometry path) (\<lambda>g.
         then_do (assert_has_accepted_keys_only ''geometry'' (keys g) geometry_keys_1_8 path)
           (if k = geometry_name \<or> geometry_name = [] then Inr (g, path)
            else find_geometry_1_8 geometry_name rest))))"

definition load_geometry ::
  "json \<Rightarrow> string \<Rightarrow> json \<Rightarrow> error + ((string \<times> json) list \<times> json_path)" where
  "load_geometry format_version geometry_name data =
     bind_err (parser_version format_version) (\<lambda>pv.
       if pv = ''1.12.0'' then
         bind_err (py_getitem data ''minecraft:geometry'') (\<lambda>geometries.
         bind_err (as_list ''geometries'' geometries [Key ''minecraft:geometry'']) (\<lambda>gs.
           find_geometry_1_12 geometry_name gs 0))
       else if pv = ''1.8.0'' then
         bind_err (as_dict ''geometries'' data []) (\<lambda>d. find_geometry_1_8 geometry_name d)
       else Inl (FileIsNotAModelException UnsuportedFormatVersion))"

subsection \<open>\<^verbatim>\<open>_load_description\<close>\<close>

record description =
  ld_identifier :: "string option"
  ld_texture_width :: int
  ld_texture_height :: int
  ld_visible_bounds_offset :: json
  ld_visible_bounds_width :: json
  ld_visible_bounds_height :: json

definition default_description :: description where
  "default_description =
     \<lparr>ld_identifier = None, ld_texture_width = 64, ld_texture_height = 64,
      ld_visible_bounds_offset = JList [JInt 0, JInt 0, JInt 0],
      ld_visible_bounds_width = JInt 1, ld_visible_bounds_height = JInt 1\<rparr>"

text \<open>\<^verbatim>\<open>int(x)\<close> of a number: a \<^verbatim>\<open>float\<close> is truncated towards zero.\<close>

definition int_of_json :: "json \<Rightarrow> error + int" where
  "int_of_json v =
     (case v of
        JInt n \<Rightarrow> Inr n
      | JBool b \<Rightarrow> Inr (if b then 1 else 0)
      | JFloat x \<Rightarrow> Inr (if x < 0 then \<lceil>x\<rceil> else \<lfloor>x\<rfloor>)
      | _ \<Rightarrow> Inl TypeError)"

text \<open>The optional keys that both versions load in the same way.\<close>

definition load_visible_bounds ::
  "(string \<times> json) list \<Rightarrow> json_path \<Rightarrow> description \<Rightarrow> error + description" where
  "load_visible_bounds desc geometry_path result =
     bind_err (if_present desc ''visible_bounds_offset'' result (\<lambda>v.
        then_do (assert_is_vector ''visible_bounds_offset'' v 3 [TInt, TFloat]
                   (geometry_path @ [Key ''visible_bounds_offset'']))
          (Inr (result\<lparr>ld_visible_bounds_offset := v\<rparr>)))) (\<lambda>result.
     bind_err (if_present desc ''visible_bounds_width'' result (\<lambda>v.
        then_do (assert_is_type ''visible_bounds_width'' v [TInt, TFloat]
                   (geometry_path @ [Key ''visible_bounds_width'']))
          (Inr (result\<lparr>ld_visible_bounds_width := v\<rparr>)))) (\<lambda>result.
     if_present desc ''visible_bounds_height'' result (\<lambda>v.
        then_do (assert_is_type ''visible_bounds_height'' v [TInt, TFloat]
                   (geometry_path @ [Key ''visible_bounds_height'']))
          (Inr (result\<lparr>ld_visible_bounds_height := v\<rparr>)))))"

definition load_texture_size ::
  "(string \<times> json) list \<Rightarrow> string \<Rightarrow> string \<Rightarrow> json_path \<Rightarrow> description \<Rightarrow> error + description" where
  "load_texture_size desc width_key height_key geometry_path result =
     bind_err (if_present desc width_key result (\<lambda>v.
        then_do (assert_is_type width_key v [TInt, TFloat] (geometry_path @ [Key width_key]))
          (bind_err (int_of_json v) (\<lambda>n. Inr (result\<lparr>ld_texture_width := n\<rparr>))))) (\<lambda>result.
     if_present desc height_key result (\<lambda>v.
        then_do (assert_is_type height_key v [TInt, TFloat] (geometry_path @ [Key height_key]))
          (bind_err (int_of_json v) (\<lambda>n. Inr (result\<lparr>ld_texture_height := n\<rparr>)))))"

definition load_description ::
  "json \<Rightarrow> (string \<times> json) list \<Rightarrow> json_path \<Rightarrow> error + description" where
  "load_description format_version geometry geometry_path =
     (let result = default_description in
      bind_err (parser_version format_version) (\<lambda>pv.
       if pv = ''1.12.0'' then
         bind_err (getitem geometry ''description'') (\<lambda>desc_json.
         let path = geometry_path @ [Key ''description''] in
         (case desc_json of
            JDict desc \<Rightarrow>
              then_do (assert_has_required_keys ''description'' (keys desc) {''identifier''} path)
             (then_do (assert_has_accepted_keys_only ''description'' (keys desc)
                         {''identifier'', ''texture_width'', ''texture_height'',
                          ''visible_bounds_offset'', ''visible_bounds_width'',
                          ''visible_bounds_height''} path)
             (bind_err (getitem desc ''identifier'') (\<lambda>identifier.
              then_do (assert_is_type ''identifier'' identifier [TStr]
                         (geometry_path @ [Key ''identifier'']))
             (bind_err (load_texture_size desc ''texture_width'' ''texture_height''
                          geometry_path
                          (result\<lparr>ld_identifier :=
                                     (case identifier of JStr s \<Rightarrow> Some s | _ \<Rightarrow> None)\<rparr>))
                (load_visible_bounds desc geometry_path)))))
          | _ \<Rightarrow> Inl AttributeError))
       else if pv = ''1.8.0'' then
         then_do (assert_has_accepted_keys_only ''geometry'' (keys geometry) geometry_keys_1_8
                    geometry_path)
           (case geometry_path of
              [] \<Rightarrow> Inl IndexError
            | _ \<Rightarrow>
              (case last geometry_path of
                 Idx i \<Rightarrow> Inl (FileIsNotAModelException
                                (IsNotAnInstanceOf (geometry_path @ [Key ''identifier''])
                                   ''identifier'' [TStr]))
               | Key k \<Rightarrow>
                   bind_err (if_present geometry ''debug'' (result\<lparr>ld_identifier := Some k\<rparr>) (\<lambda>v.
                      then_do (assert_is_type ''debug'' v [TBool] (geometry_path @ [Key ''debug'']))
                        (Inl (ImportingNotImplementedError ''debug''
                                (geometry_path @ [Key ''debug''])))))
                   (\<lambda>result.
                      bind_err (load_texture_size geometry ''texturewidth'' ''textureheight''
                                  geometry_path result)
                        (load_visible_bounds geometry geometry_path))))
       else Inl (FileIsNotAModelException UnsuportedFormatVersion)))"


subsection \<open>\<^verbatim>\<open>_load_cube\<close> and \<^verbatim>\<open>_load_cubes\<close>\<close>

record cube =
  lc_origin :: json
  lc_size :: json
  lc_rotation :: json
  lc_pivot :: json
  lc_inflate :: json
  lc_mirror :: bool
  lc_uv :: json

definition default_cube :: "bool \<Rightarrow> cube" where
  "default_cube default_mirror =
     \<lparr>lc_origin = JList [JInt 0, JInt 0, JInt 0],
      lc_size = JList [JInt 0, JInt 0, JInt 0],
      lc_rotation = JList [JInt 0, JInt 0, JInt 0],
      lc_pivot = JList [JInt 0, JInt 0, JInt 0],
      lc_inflate = JInt 0,
      lc_mirror = default_mirror,
      lc_uv = JList [JInt 0, JInt 0]\<rparr>"

text \<open>An optional vector: \<^verbatim>\<open>if k in obj: _assert_is_vector(k, obj[k], n, (int, float),
  path + [k]); result[k] = obj[k]\<close>.\<close>

definition load_vector ::
  "(string \<times> json) list \<Rightarrow> string \<Rightarrow> nat \<Rightarrow> json_path \<Rightarrow> (json \<Rightarrow> 'r \<Rightarrow> 'r) \<Rightarrow> 'r
     \<Rightarrow> error + 'r" where
  "load_vector obj k n path store result =
     if_present obj k result (\<lambda>v.
       then_do (assert_is_vector k v n [TInt, TFloat] (path @ [Key k]))
         (Inr (store v result)))"

text \<open>An optional boolean, as \<^verbatim>\<open>mirror\<close>.\<close>

definition load_bool ::
  "(string \<times> json) list \<Rightarrow> string \<Rightarrow> json_path \<Rightarrow> (bool \<Rightarrow> 'r \<Rightarrow> 'r) \<Rightarrow> 'r \<Rightarrow> error + 'r" where
  "load_bool obj k path store result =
     if_present obj k result (\<lambda>v.
       then_do (assert_is_type k v [TBool] (path @ [Key k]))
         (Inr (store (v = JBool True) result)))"

text \<open>Statements that run one after the other on the dictionary \<^verbatim>\<open>result\<close>; the first
  exception ends the run.\<close>

fun chain :: "('r \<Rightarrow> error + 'r) list \<Rightarrow> 'r \<Rightarrow> error + 'r" where
  "chain [] result = Inr result"
| "chain (step # steps) result = bind_err (step result) (chain steps)"

definition load_inflate :: "(string \<times> json) list \<Rightarrow> json_path \<Rightarrow> cube \<Rightarrow> error + cube" where
  "load_inflate cube cube_path result =
     if_present cube ''inflate'' result (\<lambda>v.
       then_do (assert_is_type ''inflate'' v [TInt, TFloat] (cube_path @ [Key ''inflate'']))
         (Inr (result\<lparr>lc_inflate := v\<rparr>)))"

definition load_uv_1_12 :: "(string \<times> json) list \<Rightarrow> json_path \<Rightarrow> cube \<Rightarrow> error + cube" where
  "load_uv_1_12 cube cube_path result =
     if_present cube ''uv'' result (\<lambda>v.
       then_do (assert_is_type ''uv'' v [TList, TDict] (cube_path @ [Key ''uv'']))
         (if isinstance v [TDict]
          then Inl (ImportingNotImplementedError ''uv dictionary'' (cube_path @ [Key ''uv'']))
          else if isinstance v [TList]
          then then_do (assert_is_vector ''uv'' v 2 [TInt, TFloat] (cube_path @ [Key ''uv'']))
                 (Inr (result\<lparr>lc_uv := v\<rparr>))
          else Inl (FileIsNotAModelException
                      (IsNotAnInstanceOf (cube_path @ [Key ''uv'']) ''uv'' [TList, TDict]))))"

definition load_uv_1_8 :: "(string \<times> json) list \<Rightarrow> json_path \<Rightarrow> cube \<Rightarrow> error + cube" where
  "load_uv_1_8 cube cube_path result =
     if_present cube ''uv'' result (\<lambda>v.
       then_do (assert_is_type ''uv'' v [TList] (cube_path @ [Key ''uv'']))
      (then_do (assert_is_vector ''uv'' v 2 [TInt, TFloat] (cube_path @ [Key ''uv'']))
         (Inr (result\<lparr>lc_uv := v\<rparr>))))"

definition load_cube :: "json \<Rightarrow> json \<Rightarrow> json_path \<Rightarrow> bool \<Rightarrow> error + cube" where
  "load_cube format_version cube_json cube_path default_mirror =
     (let result = default_cube default_mirror in
      bind_err (parser_version format_version) (\<lambda>pv.
       if pv = ''1.12.0'' then
         bind_err (as_dict ''cube'' cube_json cube_path) (\<lambda>cube.
         then_do (assert_has_accepted_keys_only ''cube'' (keys cube)
                    {''mirror'', ''inflate'', ''pivot'', ''rotation'', ''origin'', ''size'', ''uv''}
                    cube_path)
           (chain
              [load_vector cube ''origin'' 3 cube_path (\<lambda>v r. r\<lparr>lc_origin := v\<rparr>),
               load_vector cube ''size'' 3 cube_path (\<lambda>v r. r\<lparr>lc_size := v\<rparr>),
               load_vector cube ''rotation'' 3 cube_path (\<lambda>v r. r\<lparr>lc_rotation := v\<rparr>),
               load_vector cube ''pivot'' 3 cube_path (\<lambda>v r. r\<lparr>lc_pivot := v\<rparr>),
               load_inflate cube cube_path,
               load_bool cube ''mirror'' cube_path (\<lambda>b r. r\<lparr>lc_mirror := b\<rparr>),
               load_uv_1_12 cube cube_path]
              result))
       else if pv = ''1.8.0'' then
         bind_err (as_dict ''cube'' cube_json cube_path) (\<lambda>cube.
         then_do (assert_has_accepted_keys_only ''cube'' (keys cube)
                    {''origin'', ''size'', ''uv'', ''inflate'', ''mirror''} cube_path)
           (chain
              [load_vector cube ''origin'' 3 cube_path (\<lambda>v r. r\<lparr>lc_origin := v\<rparr>),
               load_vector cube ''size'' 3 cube_path (\<lambda>v r. r\<lparr>lc_size := v\<rparr>),
               load_inflate cube cube_path,
               load_bool cube ''mirror'' cube_path (\<lambda>b r. r\<lparr>lc_mirror := b\<rparr>),
               load_uv_1_8 cube cube_path]
              result))
       else Inl (FileIsNotAModelException UnsuportedFormatVersion)))"

fun load_cube_list :: "json \<Rightarrow> json list \<Rightarrow> json_path \<Rightarrow> nat \<Rightarrow> bool \<Rightarrow> error + cube list" where
  "load_cube_list format_version [] cubes_path i default_mirror = Inr []"
| "load_cube_list format_version (c # rest) cubes_path i default_mirror =
     bind_err (load_cube format_version c (cubes_path @ [Idx i]) default_mirror) (\<lambda>r.
     bind_err (load_cube_list format_version rest cubes_path (Suc i) default_mirror) (\<lambda>rs.
       Inr (r # rs)))"

definition load_cubes :: "json \<Rightarrow> json \<Rightarrow> json_path \<Rightarrow> bool \<Rightarrow> error + cube list" where
  "load_cubes format_version cubes cubes_path default_mirror =
     bind_err (parser_version format_version) (\<lambda>pv.
       if pv = ''1.12.0'' \<or> pv = ''1.8.0'' then
         bind_err (as_list ''cubes property'' cubes cubes_path) (\<lambda>cs.
           load_cube_list format_version cs cubes_path 0 default_mirror)
       else Inl (FileIsNotAModelException UnsuportedFormatVersion))"

subsection \<open>\<^verbatim>\<open>_load_locator\<close> and \<^verbatim>\<open>_load_locators\<close>\<close>

definition load_locator :: "json \<Rightarrow> json \<Rightarrow> json_path \<Rightarrow> error + json" where
  "load_locator format_version locator locator_path =
     bind_err (parser_version format_version) (\<lambda>pv.
       if pv = ''1.12.0'' then
         (if isinstance locator [TList] then
            then_do (assert_is_vector ''locator'' locator 3 [TInt, TFloat] locator_path)
              (Inr locator)
          else if isinstance locator [TDict] then
            Inl (ImportingNotImplementedError ''locator'' locator_path)
          else Inl (FileIsNotAModelException
                      (IsNotAnInstanceOf (locator_path @ [Key ''locator'']) ''locator''
                         [TList, TDict])))
       else if pv = ''1.8.0'' then
         then_do (assert_is_type ''locator'' locator [TList] locator_path)
        (then_do (assert_is_vector ''locator'' locator 3 [TInt, TFloat] locator_path)
           (Inr locator))
       else Inl (FileIsNotAModelException UnsuportedFormatVersion))"

fun load_locator_items ::
  "json \<Rightarrow> (string \<times> json) list \<Rightarrow> json_path \<Rightarrow> error + (string \<times> json) list" where
  "load_locator_items format_version [] locators_path = Inr []"
| "load_locator_items format_version ((i, locator) # rest) locators_path =
     bind_err (load_locator format_version locator (locators_path @ [Key i])) (\<lambda>r.
     bind_err (load_locator_items format_version rest locators_path) (\<lambda>rs.
       Inr ((i, r) # rs)))"

definition load_locators :: "json \<Rightarrow> json \<Rightarrow> json_path \<Rightarrow> error + (string \<times> json) list" where
  "load_locators format_version locators locators_path =
     bind_err (parser_version format_version) (\<lambda>pv.
       if pv = ''1.12.0'' \<or> pv = ''1.8.0'' then
         bind_err (as_dict ''locators property'' locators locators_path) (\<lambda>ls.
           load_locator_items format_version ls locators_path)
       else Inl (FileIsNotAModelException UnsuportedFormatVersion))"

subsection \<open>\<^verbatim>\<open>_load_bone\<close> and \<^verbatim>\<open>_load_bones\<close>\<close>

record bone =
  lb_name :: "string option"
  lb_parent :: "string option"
  lb_pivot :: json
  lb_rotation :: json
  lb_mirror :: bool
  lb_inflate :: json
  lb_debug :: bool
  lb_render_group_id :: int
  lb_cubes :: "cube list"
  lb_locators :: "(string \<times> json) list"
  lb_poly_mesh :: "(string \<times> json) list"
  lb_texture_meshes :: "json list"

definition default_bone :: bone where
  "default_bone =
     \<lparr>lb_name = None, lb_parent = None,
      lb_pivot = JList [JInt 0, JInt 0, JInt 0],
      lb_rotation = JList [JInt 0, JInt 0, JInt 0],
      lb_mirror = False, lb_inflate = JFloat 0, lb_debug = False, lb_render_group_id = 0,
      lb_cubes = [], lb_locators = [], lb_poly_mesh = [], lb_texture_meshes = []\<rparr>"

text \<open>An optional string, as \<^verbatim>\<open>name\<close> and \<^verbatim>\<open>parent\<close>.\<close>

definition load_str ::
  "(string \<times> json) list \<Rightarrow> string \<Rightarrow> json_path \<Rightarrow> (string \<Rightarrow> 'r \<Rightarrow> 'r) \<Rightarrow> 'r \<Rightarrow> error + 'r" where
  "load_str obj k path store result =
     if_present obj k result (\<lambda>v.
       then_do (assert_is_type k v [TStr] (path @ [Key k]))
         (case v of JStr s \<Rightarrow> Inr (store s result) | _ \<Rightarrow> Inr result))"

text \<open>
  A key that is recognised but not implemented: its type is checked when the source
  checks it, and then \<^verbatim>\<open>ImportingNotImplementedError(k, path + [k])\<close> is raised.
\<close>

definition not_implemented ::
  "(string \<times> json) list \<Rightarrow> string \<Rightarrow> (json \<Rightarrow> json_path \<Rightarrow> error + unit) \<Rightarrow> json_path \<Rightarrow> 'r
     \<Rightarrow> error + 'r" where
  "not_implemented obj k check path result =
     if_present obj k result (\<lambda>v.
       then_do (check v (path @ [Key k]))
         (Inl (ImportingNotImplementedError k (path @ [Key k]))))"

definition load_bone_cubes :: "json \<Rightarrow> (string \<times> json) list \<Rightarrow> json_path \<Rightarrow> bone \<Rightarrow> error + bone" where
  "load_bone_cubes format_version b bone_path result =
     if_present b ''cubes'' result (\<lambda>v.
       bind_err (load_cubes format_version v (bone_path @ [Key ''cubes'']) (lb_mirror result))
         (\<lambda>cs. Inr (result\<lparr>lb_cubes := cs\<rparr>)))"

definition load_bone_locators ::
  "json \<Rightarrow> (string \<times> json) list \<Rightarrow> json_path \<Rightarrow> bone \<Rightarrow> error + bone" where
  "load_bone_locators format_version b bone_path result =
     if_present b ''locators'' result (\<lambda>v.
       bind_err (load_locators format_version v (bone_path @ [Key ''locators'']))
         (\<lambda>ls. Inr (result\<lparr>lb_locators := ls\<rparr>)))"

text \<open>The statements that both versions share, from \<^verbatim>\<open>mirror\<close> to \<^verbatim>\<open>texture_meshes\<close>.\<close>

definition load_bone_tail ::
  "json \<Rightarrow> (string \<times> json) list \<Rightarrow> json_path \<Rightarrow> (bone \<Rightarrow> error + bone) list" where
  "load_bone_tail format_version b bone_path =
     [load_bool b ''mirror'' bone_path (\<lambda>v r. r\<lparr>lb_mirror := v\<rparr>),
      not_implemented b ''inflate'' (\<lambda>v p. assert_is_type ''inflate'' v [TFloat, TInt] p)
        bone_path,
      not_implemented b ''debug'' (\<lambda>v p. assert_is_type ''debug'' v [TBool] p) bone_path,
      not_implemented b ''redner_group_id''
        (\<lambda>v p. assert_is_type ''redner_group_id'' v [TInt, TFloat] p) bone_path,
      load_bone_cubes format_version b bone_path,
      load_bone_locators format_version b bone_path,
      not_implemented b ''poly_mesh'' (\<lambda>v p. Inr ()) bone_path,
      not_implemented b ''texture_meshes'' (\<lambda>v p. Inr ()) bone_path]"

definition load_bone :: "json \<Rightarrow> json \<Rightarrow> json_path \<Rightarrow> error + bone" where
  "load_bone format_version bone_json bone_path =
     (let result = default_bone in
      bind_err (parser_version format_version) (\<lambda>pv.
       if pv = ''1.12.0'' then
         bind_err (as_dict ''bone'' bone_json bone_path) (\<lambda>b.
         then_do (assert_has_required_keys ''bone'' (keys b) {''name''} bone_path)
        (then_do (assert_has_accepted_keys_only ''bone'' (keys b)
                    {''name'', ''parent'', ''pivot'', ''rotation'', ''mirror'', ''inflate'',
                     ''debug'', ''render_group_id'', ''cubes'', ''locators'', ''poly_mesh'',
                     ''texture_meshes''} bone_path)
           (chain
              ([load_str b ''name'' bone_path (\<lambda>s r. r\<lparr>lb_name := Some s\<rparr>),
                load_str b ''parent'' bone_path (\<lambda>s r. r\<lparr>lb_parent := Some s\<rparr>),
                load_vector b ''pivot'' 3 bone_path (\<lambda>v r. r\<lparr>lb_pivot := v\<rparr>),
                load_vector b ''rotation'' 3 bone_path (\<lambda>v r. r\<lparr>lb_rotation := v\<rparr>)]
               @ load_bone_tail format_version b bone_path)
              result)))
       else if pv = ''1.8.0'' then
         bind_err (as_dict ''bone'' bone_json bone_path) (\<lambda>b.
         then_do (assert_has_required_keys ''bone'' (keys b) {''name''} bone_path)
        (then_do (assert_has_accepted_keys_only ''bone'' (keys b)
                    {''name'', ''reset'', ''neverRender'', ''parent'', ''pivot'', ''rotation'',
                     ''bind_pose_rotation'', ''mirror'', ''inflate'', ''debug'',
                     ''render_group_id'', ''cubes'', ''locators'', ''poly_mesh'',
                     ''texture_meshes''} bone_path)
           (chain
              ([load_str b ''name'' bone_path (\<lambda>s r. r\<lparr>lb_name := Some s\<rparr>),
                not_implemented b ''reset'' (\<lambda>v p. assert_is_type ''reset'' v [TBool] p)
                  bone_path,
                not_implemented b ''neverRender''
                  (\<lambda>v p. assert_is_type ''neverRender'' v [TBool] p) bone_path,
                load_str b ''parent'' bone_path (\<lambda>s r. r\<lparr>lb_parent := Some s\<rparr>),
                load_vector b ''pivot'' 3 bone_path (\<lambda>v r. r\<lparr>lb_pivot := v\<rparr>),
                load_vector b ''rotation'' 3 bone_path (\<lambda>v r. r\<lparr>lb_rotation := v\<rparr>),
                not_implemented b ''bind_pose_rotation''
                  (\<lambda>v p. assert_is_vector ''bind_pose_rotation'' v 3 [TInt, TFloat] p) bone_path]
               @ load_bone_tail format_version b bone_path)
              result)))
       else Inl (FileIsNotAModelException UnsuportedFormatVersion)))"

fun load_bone_list :: "json \<Rightarrow> json list \<Rightarrow> json_path \<Rightarrow> nat \<Rightarrow> error + bone list" where
  "load_bone_list format_version [] bones_path i = Inr []"
| "load_bone_list format_version (b # rest) bones_path i =
     bind_err (load_bone format_version b (bones_path @ [Idx i])) (\<lambda>r.
     bind_err (load_bone_list format_version rest bones_path (Suc i)) (\<lambda>rs.
       Inr (r # rs)))"

definition load_bones :: "json \<Rightarrow> json \<Rightarrow> json_path \<Rightarrow> error + bone list" where
  "load_bones format_version bones bones_path =
     bind_err (parser_version format_version) (\<lambda>pv.
       if pv = ''1.12.0'' \<or> pv = ''1.8.0'' then
         bind_err (as_list ''bones property'' bones bones_path) (\<lambda>bs.
           load_bone_list format_version bs bones_path 0)
       else Inl (FileIsNotAModelException UnsuportedFormatVersion))"

subsection \<open>\<^verbatim>\<open>ModelLoader.__init__\<close>\<close>

record model_loader =
  ml_format_version :: json
  ml_description :: description
  ml_bones :: "bone list"

definition ModelLoader :: "json \<Rightarrow> string \<Rightarrow> error + model_loader" where
  "ModelLoader data geometry_name =
     bind_err (load_format_version data) (\<lambda>format_version.
     bind_err (load_geometry format_version geometry_name data) (\<lambda>(geometry, geometry_path).
     bind_err (load_description format_version geometry geometry_path) (\<lambda>desc.
     bind_err (getitem geometry ''bones'') (\<lambda>bones_json.
     bind_err (load_bones format_version bones_json (geometry_path @ [Key ''bones''])) (\<lambda>bones.
       Inr \<lparr>ml_format_version = format_version, ml_description = desc, ml_bones = bones\<rparr>)))))"

text \<open>Documents for concrete runs.\<close>

definition minimal_document :: json where
  "minimal_document =
     JDict [(''format_version'', JStr ''1.12.0''),
            (''minecraft:geometry'',
             JList [JDict [(''description'', JDict [(''identifier'', JStr ''geometry.a'')]),
                           (''bones'', JList [JDict [(''name'', JStr ''body''),
                                                     (''cubes'', JList [JDict []])]])]])]"



definition one_eight_uv_document :: json where
  "one_eight_uv_document =
     JDict [(''format_version'', JStr ''1.8.0''),
            (''geometry.a'',
             JDict [(''bones'', JList [JDict [(''name'', JStr ''body''),
                                              (''cubes'', JList [JDict [(''uv'', JDict [])]])]])])]"




section \<open>Properties of version resolution\<close>

lemma best_choice_sorted:
  "sorted (rev xs) \<Longrightarrow>
   best_choice xs tv =
     (if \<exists>t\<in>set xs. t \<le> tv then Some (Max {t \<in> set xs. t \<le> tv}) else None)"
proof (induction xs)
  case Nil
  then show ?case by simp
next
  case (Cons x xs)
  from Cons.prems have srt: "sorted (rev xs)" and ub: "\<forall>y\<in>set xs. y \<le> x"
    by (auto simp: sorted_append)
  show ?case
  proof (cases "x \<le> tv")
    case True
    have "Max {t \<in> set (x # xs). t \<le> tv} = x"
      using True ub by (intro Max_eqI) auto
    with True show ?thesis by auto
  next
    case False
    then have "{t \<in> set (x # xs). t \<le> tv} = {t \<in> set xs. t \<le> tv}" by auto
    with False Cons.IH [OF srt] show ?thesis by auto
  qed
qed


lemma pick_version_parser_general:
  assumes "to_tuples parsers = Inr ts"
  shows "pick_version_parser parsers version =
     (case to_tuple version of
        Inl e \<Rightarrow> Inl (FileIsNotAModelException UnableToParseFormatVersion)
      | Inr tv \<Rightarrow>
          if \<exists>t\<in>set ts. t \<le> tv
          then Inr (join_dot (map py_str (Max {t \<in> set ts. t \<le> tv})))
          else Inl (FileIsNotAModelException UnsuportedFormatVersion))"
proof (cases "to_tuple version")
  case (Inl e)
  then have "e = FileIsNotAModelException UnableToParseFormatVersion"
    by (auto simp: to_tuple_def split: option.splits)
  with Inl assms show ?thesis
    by (simp add: pick_version_parser_def bind_err_def)
next
  case (Inr tv)
  have "best_choice (rev (sort ts)) tv =
     (if \<exists>t\<in>set ts. t \<le> tv then Some (Max {t \<in> set ts. t \<le> tv}) else None)"
    using best_choice_sorted [of "rev (sort ts)" tv] by simp
  with Inr assms show ?thesis
    by (simp add: pick_version_parser_def bind_err_def)
qed

text \<open>
  Claim C2. Version resolution parses the declared version as a dot-separated tuple of
  integers and returns the greatest supported version that is at most the declared one;
  it fails when the declared string does not parse or when no supported version
  qualifies. With the supported versions 1.12.0 and 1.8.0, the declared version 1.9.3
  resolves to 1.8.0 and the declared version 1.0.0 fails. Both failures are the
  exception \<^verbatim>\<open>FileIsNotAModelException\<close> of the source.
\<close>

theorem pick_version_parser_greatest:
  "(to_tuples parsers = Inr ts \<longrightarrow>
    pick_version_parser parsers version =
     (case to_tuple version of
        Inl e \<Rightarrow> Inl (FileIsNotAModelException UnableToParseFormatVersion)
      | Inr tv \<Rightarrow>
          if \<exists>t\<in>set ts. t \<le> tv
          then Inr (join_dot (map py_str (Max {t \<in> set ts. t \<le> tv})))
          else Inl (FileIsNotAModelException UnsuportedFormatVersion)))
   \<and> pick_version_parser [''1.12.0'', ''1.8.0''] ''1.9.3'' = Inr ''1.8.0''
   \<and> pick_version_parser [''1.12.0'', ''1.8.0''] ''1.0.0'' =
       Inl (FileIsNotAModelException UnsuportedFormatVersion)
   \<and> pick_version_parser [''1.12.0'', ''1.8.0''] ''1.x.0'' =
       Inl (FileIsNotAModelException UnableToParseFormatVersion)"
proof (intro conjI impI)
  assume "to_tuples parsers = Inr ts"
  then show "pick_version_parser parsers version =
     (case to_tuple version of
        Inl e \<Rightarrow> Inl (FileIsNotAModelException UnableToParseFormatVersion)
      | Inr tv \<Rightarrow>
          if \<exists>t\<in>set ts. t \<le> tv
          then Inr (join_dot (map py_str (Max {t \<in> set ts. t \<le> tv})))
          else Inl (FileIsNotAModelException UnsuportedFormatVersion))"
    by (rule pick_version_parser_general)
next
  show "pick_version_parser [''1.12.0'', ''1.8.0''] ''1.9.3'' = Inr ''1.8.0''"
    by code_simp
next
  show "pick_version_parser [''1.12.0'', ''1.8.0''] ''1.0.0'' =
       Inl (FileIsNotAModelException UnsuportedFormatVersion)"
    by code_simp
next
  show "pick_version_parser [''1.12.0'', ''1.8.0''] ''1.x.0'' =
       Inl (FileIsNotAModelException UnableToParseFormatVersion)"
    by code_simp
qed

theorem pick_version_parser_greatest_witness:
  "to_tuples [''1.12.0'', ''1.8.0''] = Inr [[1, 12, 0], [1, 8, 0]] \<and>
   pick_version_parser [''1.12.0'', ''1.8.0''] ''1.12.5'' =
     Inr (join_dot (map py_str (Max {t \<in> set [[1, 12, 0], [1, 8, 0]]. t \<le> [1, 12, 5]}))) \<and>
   Max {t \<in> set [[1, 12, 0], [1, 8, 0]]. t \<le> [1, 12, 5 :: int]} = [1, 12, 0]"
proof -
  have h: "to_tuples [''1.12.0'', ''1.8.0''] = Inr [[1, 12, 0], [1, 8, 0]]"
    by code_simp
  have tv: "to_tuple ''1.12.5'' = Inr [1, 12, 5]"
    by code_simp
  have ex: "\<exists>t\<in>set [[1, 12, 0], [1, 8, 0]]. t \<le> [1, 12, 5 :: int]"
    by auto
  have mx: "Max {t \<in> set [[1, 12, 0], [1, 8, 0]]. t \<le> [1, 12, 5 :: int]} = [1, 12, 0]"
    by (intro Max_eqI) auto
  from pick_version_parser_greatest [of "[''1.12.0'', ''1.8.0'']" "[[1, 12, 0], [1, 8, 0]]" "''1.12.5''"] h
  have "pick_version_parser [''1.12.0'', ''1.8.0''] ''1.12.5'' =
     (case to_tuple ''1.12.5'' of
        Inl e \<Rightarrow> Inl (FileIsNotAModelException UnableToParseFormatVersion)
      | Inr tv \<Rightarrow>
          if \<exists>t\<in>set [[1, 12, 0], [1, 8, 0]]. t \<le> tv
          then Inr (join_dot (map py_str (Max {t \<in> set [[1, 12, 0], [1, 8, 0]]. t \<le> tv})))
          else Inl (FileIsNotAModelException UnsuportedFormatVersion))"
    by blast
  then have "pick_version_parser [''1.12.0'', ''1.8.0''] ''1.12.5'' =
     Inr (join_dot (map py_str (Max {t \<in> set [[1, 12, 0], [1, 8, 0]]. t \<le> [1, 12, 5]})))"
    unfolding tv using ex by (simp only: sum.case if_True)
  with h mx show ?thesis by blast
qed


section \<open>Properties of the rotation-continuity solver\<close>

lemma same_mod_360_refl: "same_mod_360 v v"
  unfolding same_mod_360_def
  by (rule exI [of _ 0], rule exI [of _ 0], rule exI [of _ 0]) (cases v, simp)

lemma same_mod_360_add:
  assumes "same_mod_360 v w"
  shows "same_mod_360 v (vadd w (arr360 i))"
proof -
  from assms obtain k l m :: int
    where w: "w = vadd v (360 * of_int k, 360 * of_int l, 360 * of_int m)"
    unfolding same_mod_360_def by blast
  obtain a b c where v: "v = (a, b, c)" by (cases v)
  consider "i = 0" | "i = 1" | "i \<noteq> 0 \<and> i \<noteq> 1" by blast
  then show ?thesis
  proof cases
    case 1
    have "vadd w (arr360 i) = vadd v (360 * of_int (k + 1), 360 * of_int l, 360 * of_int m)"
      by (simp add: w v 1 arr360_def)
    then show ?thesis unfolding same_mod_360_def by blast
  next
    case 2
    have "vadd w (arr360 i) = vadd v (360 * of_int k, 360 * of_int (l + 1), 360 * of_int m)"
      by (simp add: w v 2 arr360_def)
    then show ?thesis unfolding same_mod_360_def by blast
  next
    case 3
    have "vadd w (arr360 i) = vadd v (360 * of_int k, 360 * of_int l, 360 * of_int (m + 1))"
      using 3 by (simp add: w v arr360_def)
    then show ?thesis unfolding same_mod_360_def by blast
  qed
qed

lemma same_mod_360_sub:
  assumes "same_mod_360 v w"
  shows "same_mod_360 v (vsub w (arr360 i))"
proof -
  from assms obtain k l m :: int
    where w: "w = vadd v (360 * of_int k, 360 * of_int l, 360 * of_int m)"
    unfolding same_mod_360_def by blast
  obtain a b c where v: "v = (a, b, c)" by (cases v)
  consider "i = 0" | "i = 1" | "i \<noteq> 0 \<and> i \<noteq> 1" by blast
  then show ?thesis
  proof cases
    case 1
    have "vsub w (arr360 i) = vadd v (360 * of_int (k - 1), 360 * of_int l, 360 * of_int m)"
      by (simp add: w v 1 arr360_def)
    then show ?thesis unfolding same_mod_360_def by blast
  next
    case 2
    have "vsub w (arr360 i) = vadd v (360 * of_int k, 360 * of_int (l - 1), 360 * of_int m)"
      by (simp add: w v 2 arr360_def)
    then show ?thesis unfolding same_mod_360_def by blast
  next
    case 3
    have "vsub w (arr360 i) = vadd v (360 * of_int k, 360 * of_int l, 360 * of_int (m - 1))"
      using 3 by (simp add: w v arr360_def)
    then show ?thesis unfolding same_mod_360_def by blast
  qed
qed

lemma add_loop_same_mod_360:
  "same_mod_360 v (snd state) \<Longrightarrow> same_mod_360 v (snd (add_loop i close_to state))"
proof (induction i close_to state rule: add_loop.induct)
  case (1 i close_to distance choice)
  show ?case
  proof (cases "vget choice i < vget close_to i \<and>
                \<not> norm3 (vsub (vadd choice (arr360 i)) close_to) > distance")
    case True
    have "same_mod_360 v (vadd choice (arr360 i))"
      using "1.prems" by (simp add: same_mod_360_add)
    with True "1.IH" [OF _ refl refl] show ?thesis
      by (subst add_loop.simps) (simp add: Let_def)
  next
    case False
    with "1.prems" show ?thesis
      by (subst add_loop.simps) (auto simp: Let_def)
  qed
qed

lemma sub_loop_same_mod_360:
  "same_mod_360 v (snd state) \<Longrightarrow> same_mod_360 v (snd (sub_loop i close_to state))"
proof (induction i close_to state rule: sub_loop.induct)
  case (1 i close_to distance choice)
  show ?case
  proof (cases "vget choice i > vget close_to i \<and>
                \<not> norm3 (vsub (vsub choice (arr360 i)) close_to) > distance")
    case True
    have "same_mod_360 v (vsub choice (arr360 i))"
      using "1.prems" by (simp add: same_mod_360_sub)
    with True "1.IH" [OF _ refl refl] show ?thesis
      by (subst sub_loop.simps) (simp add: Let_def)
  next
    case False
    with "1.prems" show ?thesis
      by (subst sub_loop.simps) (auto simp: Let_def)
  qed
qed

lemma pick_closet_location_same_mod_360:
  "same_mod_360 v (snd (pick_closet_location v close_to))"
  unfolding pick_closet_location_def
  by (simp add: sub_loop_same_mod_360 add_loop_same_mod_360 same_mod_360_refl)

lemma sin_deg_360: "sin ((a + 360 * of_int k) * pi / 180) = sin (a * pi / 180)"
proof -
  have eq: "(a + 360 * of_int k) * pi / 180 = a * pi / 180 + (2 * pi) * of_int k"
    by (simp add: field_simps)
  show ?thesis unfolding eq sin_add by simp
qed

lemma cos_deg_360: "cos ((a + 360 * of_int k) * pi / 180) = cos (a * pi / 180)"
proof -
  have eq: "(a + 360 * of_int k) * pi / 180 = a * pi / 180 + (2 * pi) * of_int k"
    by (simp add: field_simps)
  show ?thesis unfolding eq cos_add by simp
qed


lemma mc_rotation_matrix_same_mod_360:
  assumes "same_mod_360 v w"
  shows "mc_rotation_matrix w = mc_rotation_matrix v"
proof -
  from assms obtain k l m :: int
    where w: "w = vadd v (360 * of_int k, 360 * of_int l, 360 * of_int m)"
    unfolding same_mod_360_def by blast
  obtain a b c where v: "v = (a, b, c)" by (cases v)
  have e: "mc_rotate_euler w =
      ((a + 360 * of_int k) * pi / 180, (c + 360 * of_int m) * pi / 180,
       - ((b + 360 * of_int l) * pi / 180))"
    by (simp add: w v mc_rotate_euler_def algebra_simps)
  have e0: "mc_rotate_euler v = (a * pi / 180, c * pi / 180, - (b * pi / 180))"
    by (simp add: v mc_rotate_euler_def)
  show ?thesis
    unfolding mc_rotation_matrix_def e e0
    by (simp add: rot_x_def rot_y_def rot_z_def sin_deg_360 cos_deg_360 del: of_int_add)
qed

lemma sin_deg_180: "sin ((a + 180) * pi / 180) = - sin (a * pi / 180)"
proof -
  have eq: "(a + 180) * pi / 180 = a * pi / 180 + pi"
    by (simp add: field_simps)
  show ?thesis unfolding eq by simp
qed

lemma cos_deg_180: "cos ((a + 180) * pi / 180) = - cos (a * pi / 180)"
proof -
  have eq: "(a + 180) * pi / 180 = a * pi / 180 + pi"
    by (simp add: field_simps)
  show ?thesis unfolding eq by simp
qed

lemma mc_rotation_matrix_flip:
  "mc_rotation_matrix (flip_candidate w (0, 0, 0)) = mc_rotation_matrix w"
proof -
  obtain a b c where w: "w = (a, b, c)" by (cases w)
  have e: "mc_rotate_euler (flip_candidate w (0, 0, 0)) =
      ((a + 180) * pi / 180, (c + 180) * pi / 180, (b + 180) * pi / 180)"
    by (simp add: w flip_candidate_def mc_rotate_euler_def algebra_simps)
  have e0: "mc_rotate_euler w = (a * pi / 180, c * pi / 180, - (b * pi / 180))"
    by (simp add: w mc_rotate_euler_def)
  show ?thesis
    unfolding mc_rotation_matrix_def e e0
    by (simp add: rot_x_def rot_y_def rot_z_def sin_deg_180 cos_deg_180)
qed

lemma flip_candidate_rest:
  "vadd r (flip_candidate v r) = flip_candidate (vadd r v) (0, 0, 0)"
  by (cases r, cases v) (simp add: flip_candidate_def)

lemma same_mod_360_vadd:
  "same_mod_360 v w \<Longrightarrow> same_mod_360 (vadd r v) (vadd r w)"
  unfolding same_mod_360_def
  by (cases r, cases v) auto

lemma pick_closest_rotation_cases:
  "pick_closest_rotation v p rest = snd (pick_closet_location v p) \<or>
   pick_closest_rotation v p rest =
     snd (pick_closet_location
           (flip_candidate v (case rest of None \<Rightarrow> (0, 0, 0) | Some r \<Rightarrow> r)) p)"
  by (simp add: pick_closest_rotation_def Let_def split: prod.splits)

lemma pick_rest:
  "mc_rotation_matrix (vadd r (pick_closest_rotation v p (Some r))) =
   mc_rotation_matrix (vadd r v)"
proof -
  have A: "mc_rotation_matrix (vadd r (snd (pick_closet_location v p))) =
           mc_rotation_matrix (vadd r v)"
    by (intro mc_rotation_matrix_same_mod_360 same_mod_360_vadd
          pick_closet_location_same_mod_360)
  have "mc_rotation_matrix (vadd r (snd (pick_closet_location (flip_candidate v r) p))) =
        mc_rotation_matrix (vadd r (flip_candidate v r))"
    by (intro mc_rotation_matrix_same_mod_360 same_mod_360_vadd
          pick_closet_location_same_mod_360)
  then have B: "mc_rotation_matrix (vadd r (snd (pick_closet_location (flip_candidate v r) p))) =
        mc_rotation_matrix (vadd r v)"
    by (simp add: flip_candidate_rest mc_rotation_matrix_flip)
  from pick_closest_rotation_cases [of v p "Some r"] A B show ?thesis
    by auto
qed

lemma pick_none:
  "mc_rotation_matrix (pick_closest_rotation v p None) = mc_rotation_matrix v"
proof -
  have "pick_closest_rotation v p None = pick_closest_rotation v p (Some (0, 0, 0))"
    by (simp add: pick_closest_rotation_def)
  moreover have "vadd (0, 0, 0) x = x" for x by (cases x) simp
  ultimately show ?thesis using pick_rest [of "(0, 0, 0)" v p] by simp
qed


lemma flip_candidate_same_mod_360:
  assumes "vget r 1 = 180 * of_int k"
  shows "same_mod_360 (flip_candidate v (0, 0, 0)) (flip_candidate v r)"
proof -
  obtain a b c where v: "v = (a, b, c)" by (cases v)
  obtain x y z where r: "r = (x, y, z)" by (cases r)
  from assms have y: "y = 180 * of_int k" by (simp add: r)
  have "flip_candidate v r =
        vadd (flip_candidate v (0, 0, 0)) (360 * of_int 0, 360 * of_int (- k), 360 * of_int 0)"
    by (simp add: v r y flip_candidate_def)
  then show ?thesis unfolding same_mod_360_def by blast
qed

lemma pick_multiple_of_180:
  assumes "vget r 1 = 180 * of_int k"
  shows "mc_rotation_matrix (pick_closest_rotation v p (Some r)) = mc_rotation_matrix v"
proof -
  have A: "mc_rotation_matrix (snd (pick_closet_location v p)) = mc_rotation_matrix v"
    by (intro mc_rotation_matrix_same_mod_360 pick_closet_location_same_mod_360)
  have "mc_rotation_matrix (snd (pick_closet_location (flip_candidate v r) p)) =
        mc_rotation_matrix (flip_candidate v r)"
    by (intro mc_rotation_matrix_same_mod_360 pick_closet_location_same_mod_360)
  also have "\<dots> = mc_rotation_matrix (flip_candidate v (0, 0, 0))"
    by (rule mc_rotation_matrix_same_mod_360 [OF flip_candidate_same_mod_360 [OF assms]])
  also have "\<dots> = mc_rotation_matrix v"
    by (rule mc_rotation_matrix_flip)
  finally have B: "mc_rotation_matrix (snd (pick_closet_location (flip_candidate v r) p)) =
        mc_rotation_matrix v" .
  from pick_closest_rotation_cases [of v p "Some r"] A B show ?thesis
    by auto
qed

lemma pick_closet_location_example_raw:
  "pick_closet_location (0, 0, 0) (170, - 350, 170) = (sqrt 57900, (0, - 360, 0))"
  by (simp add: pick_closet_location_def add_loop.simps sub_loop.simps arr360_def Let_def)

lemma pick_closet_location_example_flip:
  "pick_closet_location (180, - 360, 180) (170, - 350, 170) = (sqrt 300, (180, - 360, 180))"
  by (simp add: pick_closet_location_def add_loop.simps sub_loop.simps arr360_def Let_def)

text \<open>
  Claim C1, as stated: for every rotation vector, previous vector and rest vector, the
  vector returned by the solver decodes to the same rotation matrix as the input. It
  fails when the rest rotation has a second component that is not a multiple of 180:
  with the input \<open>(0, 0, 0)\<close>, the previous vector \<open>(170, -350, 170)\<close> and the rest
  rotation \<open>(0, 90, 0)\<close> the flipped candidate \<open>(180, -360, 180)\<close> wins, and it
  decodes to a half turn, not to the identity.
\<close>

theorem pick_closest_rotation_rest_counterexample:
  "mc_rotation_matrix (pick_closest_rotation (0, 0, 0) (170, - 350, 170) (Some (0, 90, 0)))
     \<noteq> mc_rotation_matrix (0, 0, 0)"
proof -
  have f: "flip_candidate (0, 0, 0) (0, 90, 0) = (180, - 360, 180)"
    by (simp add: flip_candidate_def)
  have r: "pick_closest_rotation (0, 0, 0) (170, - 350, 170) (Some (0, 90, 0))
             = (180, - 360, 180)"
    by (simp add: pick_closest_rotation_def f pick_closet_location_example_raw
          pick_closet_location_example_flip)
  have "mc_rotate_euler (180, - 360, 180) = (pi, pi, 2 * pi)"
    by (simp add: mc_rotate_euler_def)
  moreover have "mc_rotate_euler (0, 0, 0) = (0, 0, 0)"
    by (simp add: mc_rotate_euler_def)
  ultimately show ?thesis
    unfolding r mc_rotation_matrix_def
    by (simp add: rot_x_def rot_y_def rot_z_def)
qed

text \<open>
  Claim C1, amended: for every rotation vector \<open>v\<close>, previous vector \<open>p\<close> and rest
  rotation \<open>r\<close>, the returned vector added to the rest rotation decodes to the same
  rotation matrix as \<open>v\<close> added to the rest rotation, whichever candidate is returned.
  The returned vector itself decodes to the same matrix as \<open>v\<close> when no rest rotation
  is given, and whenever the second component of the rest rotation is a multiple of 180.
\<close>

theorem pick_closest_rotation_orientation:
  "mc_rotation_matrix (vadd r (pick_closest_rotation v p (Some r))) =
     mc_rotation_matrix (vadd r v)
   \<and> mc_rotation_matrix (pick_closest_rotation v p None) = mc_rotation_matrix v
   \<and> (vget r 1 = 180 * of_int k \<longrightarrow>
        mc_rotation_matrix (pick_closest_rotation v p (Some r)) = mc_rotation_matrix v)"
  using pick_rest [of r v p] pick_none [of v p] pick_multiple_of_180 [of r k v p]
  by blast

theorem pick_closest_rotation_orientation_witness:
  "vget (0, 180, 0) 1 = 180 * of_int 1 \<and>
   mc_rotation_matrix (pick_closest_rotation (0, 0, 0) (170, - 350, 170) (Some (0, 180, 0)))
     = mc_rotation_matrix (0, 0, 0)"
  using pick_closest_rotation_orientation [of "(0, 180, 0)" "(0, 0, 0)" "(170, - 350, 170)" 1]
  by simp

text \<open>
  Claim C3, as stated: the second candidate is the alignment of
  \<open>(v.x + 180, -(v.y) + 180 + 2 * rest.y, v.z + 180)\<close>. The source adds before it
  negates: the second component is \<open>-(v.y + 180 + 2 * rest.y)\<close>. For \<open>v = (0, 0, 0)\<close>
  and the rest rotation \<open>(0, 45, 0)\<close> the source starts from \<open>(180, -270, 180)\<close>, the
  stated formula from \<open>(180, 270, 180)\<close>.
\<close>

theorem flip_candidate_counterexample:
  "flip_candidate (0, 0, 0) (0, 45, 0) = (180, - 270, 180) \<and>
   spec_flip (0, 0, 0) (0, 45, 0) = (180, 270, 180) \<and>
   flip_candidate (0, 0, 0) (0, 45, 0) \<noteq> spec_flip (0, 0, 0) (0, 45, 0)"
  by (simp add: flip_candidate_def spec_flip_def)

text \<open>
  Claim C3, amended: for every input vector \<open>v\<close>, previous vector and rest vector, the
  second candidate is the alignment of
  \<open>(v.x + 180, -(v.y + 180 + 2 * rest.y), v.z + 180)\<close> with the previous vector, and
  the solver returns it exactly when its distance is strictly smaller than the distance
  of the aligned input.
\<close>

theorem flip_candidate_formula:
  "flip_candidate v rest =
     (vget v 0 + 180, - (vget v 1 + 180 + 2 * vget rest 1), vget v 2 + 180)
   \<and> pick_closest_rotation v previous (Some rest) =
       (if fst (pick_closet_location (flip_candidate v rest) previous)
             < fst (pick_closet_location v previous)
        then snd (pick_closet_location (flip_candidate v rest) previous)
        else snd (pick_closet_location v previous))"
  by (cases v, cases rest)
     (simp add: flip_candidate_def pick_closest_rotation_def Let_def split: prod.splits)


section \<open>Properties of pivot resolution\<close>







lemma bind_err_Inl: "m = Inl e \<Longrightarrow> bind_err m f = Inl e"
  by (simp add: bind_err_def)

lemma bind_err_fails_later:
  "(\<And>x. \<exists>e. f x = Inl e) \<Longrightarrow> \<exists>e. bind_err m f = Inl e"
  by (cases m) (simp_all add: bind_err_def)









section \<open>Properties of the numbers written to the output\<close>







section \<open>Properties of the name-conflict check\<close>

lemma get_name_conflicts_loop_result:
  assumes "map name (filter (\<lambda>p. mctype p \<in> {BONE, BOTH}) ps) = map Inr ns"
    and "distinct acc"
  shows "(distinct (acc @ ns) \<longrightarrow> get_name_conflicts_loop ps acc = Inr []) \<and>
         (\<not> distinct (acc @ ns) \<longrightarrow>
            (\<exists>j<length ns. distinct (acc @ take j ns) \<and> ns ! j \<in> set (acc @ take j ns)
                      \<and> get_name_conflicts_loop ps acc = Inr (ns ! j)))"
  using assms
proof (induction ps arbitrary: acc ns)
  case Nil
  then show ?case by simp
next
  case (Cons p ps)
  show ?case
  proof (cases "mctype p \<in> {BONE, BOTH}")
    case False
    with Cons.prems have "map name (filter (\<lambda>p. mctype p \<in> {BONE, BOTH}) ps) = map Inr ns"
      by simp
    from Cons.IH [OF this Cons.prems(2)] False show ?thesis by simp
  next
    case True
    with Cons.prems(1) obtain n ns' where ns: "ns = n # ns'" and n: "name p = Inr n"
      and rest: "map name (filter (\<lambda>p. mctype p \<in> {BONE, BOTH}) ps) = map Inr ns'"
      by (cases ns) auto
    show ?thesis
    proof (cases "n \<in> set acc")
      case inacc: True
      have res: "get_name_conflicts_loop (p # ps) acc = Inr n"
        using True n inacc by (simp add: bind_err_def)
      have nd: "\<not> distinct (acc @ ns)" using inacc ns by simp
      have "0 < length ns \<and> distinct (acc @ take 0 ns) \<and> ns ! 0 \<in> set (acc @ take 0 ns)
            \<and> get_name_conflicts_loop (p # ps) acc = Inr (ns ! 0)"
        using inacc ns res Cons.prems(2) by simp
      with nd show ?thesis by blast
    next
      case notin: False
      have d: "distinct (acc @ [n])" using notin Cons.prems(2) by simp
      have res: "get_name_conflicts_loop (p # ps) acc = get_name_conflicts_loop ps (acc @ [n])"
        using True n notin by (simp add: bind_err_def)
      have app: "(acc @ [n]) @ ns' = acc @ ns" using ns by simp
      note ih = Cons.IH [OF rest d, unfolded app]
      show ?thesis
      proof (intro conjI impI)
        assume "distinct (acc @ ns)"
        with ih show "get_name_conflicts_loop (p # ps) acc = Inr []"
          unfolding res by blast
      next
        assume "\<not> distinct (acc @ ns)"
        with ih obtain j where j: "j < length ns'"
          "distinct ((acc @ [n]) @ take j ns')" "ns' ! j \<in> set ((acc @ [n]) @ take j ns')"
          "get_name_conflicts_loop ps (acc @ [n]) = Inr (ns' ! j)"
          by blast
        have "Suc j < length ns \<and> distinct (acc @ take (Suc j) ns)
              \<and> ns ! Suc j \<in> set (acc @ take (Suc j) ns)
              \<and> get_name_conflicts_loop (p # ps) acc = Inr (ns ! Suc j)"
          using j ns res by simp
        then show "\<exists>j<length ns. distinct (acc @ take j ns) \<and> ns ! j \<in> set (acc @ take j ns)
                      \<and> get_name_conflicts_loop (p # ps) acc = Inr (ns ! j)"
          by blast
      qed
    qed
  qed
qed

lemma get_name_conflicts_result:
  assumes "bone_names object_properties = map Inr ns"
  shows "(distinct ns \<longrightarrow> get_name_conflicts object_properties = Inr []) \<and>
         (\<not> distinct ns \<longrightarrow>
            (\<exists>j<length ns. distinct (take j ns) \<and> ns ! j \<in> set (take j ns)
                      \<and> get_name_conflicts object_properties = Inr (ns ! j)))"
  using get_name_conflicts_loop_result [of "map snd object_properties" ns "[]"] assms
  by (simp add: get_name_conflicts_def bone_names_def)

section \<open>Properties of the build of the imported geometry\<close>

lemma create_cubes_result:
  "create_cubes scene cubes = (scene', cubes') \<Longrightarrow>
   (\<exists>new. scene' = scene @ new \<and> (\<forall>obj\<in>set new. bo_parent obj = None)) \<and>
   map ic_blend_cube cubes' = map Some [length scene ..< length scene']"
proof (induction cubes arbitrary: scene scene' cubes')
  case Nil
  then show ?case by simp
next
  case (Cons cube rest)
  let ?obj = "mc_pivot (if ic_mirror cube then new_object\<lparr>bo_custom := [''mc_mirror'']\<rparr>
                        else new_object) (ic_pivot cube) :: 'a blend_object"
  obtain s r where rec: "create_cubes (scene @ [?obj]) rest = (s, r)"
    by (cases "create_cubes (scene @ [?obj]) rest")
  from Cons.prems rec have eq: "scene' = s"
      "cubes' = cube\<lparr>ic_blend_cube := Some (length scene)\<rparr> # r"
    by (simp_all add: Let_def)
  from Cons.IH [OF rec] obtain new where new: "s = (scene @ [?obj]) @ new"
      "\<forall>obj\<in>set new. bo_parent obj = None"
    and refs: "map ic_blend_cube r = map Some [length (scene @ [?obj]) ..< length s]"
    by blast
  have p: "bo_parent ?obj = None" by (simp add: mc_pivot_def new_object_def)
  have "scene' = scene @ (?obj # new) \<and> (\<forall>obj\<in>set (?obj # new). bo_parent obj = None)"
    using new p eq by simp
  moreover have "map ic_blend_cube cubes' = map Some [length scene ..< length scene']"
  proof -
    have lt: "length scene < length scene'" using new eq by simp
    have r': "map ic_blend_cube r = map Some [Suc (length scene) ..< length scene']"
      using refs unfolding eq(1) by simp
    show ?thesis by (subst upt_conv_Cons [OF lt]) (simp add: eq(2) r')
  qed
  ultimately show ?case by blast
qed

lemma create_locators_result:
  "create_locators scene locators = (scene', locators') \<Longrightarrow>
   (\<exists>new. scene' = scene @ new \<and> (\<forall>obj\<in>set new. bo_parent obj = None)) \<and>
   map il_blend_empty locators' = map Some [length scene ..< length scene']"
proof (induction locators arbitrary: scene scene' locators')
  case Nil
  then show ?case by simp
next
  case (Cons locator rest)
  let ?obj = "(mc_pivot new_object (il_position locator))\<lparr>bo_name := il_name locator\<rparr>
                :: 'a blend_object"
  obtain s r where rec: "create_locators (scene @ [?obj]) rest = (s, r)"
    by (cases "create_locators (scene @ [?obj]) rest")
  from Cons.prems rec have eq: "scene' = s"
      "locators' = locator\<lparr>il_blend_empty := Some (length scene)\<rparr> # r"
    by (simp_all add: Let_def)
  from Cons.IH [OF rec] obtain new where new: "s = (scene @ [?obj]) @ new"
      "\<forall>obj\<in>set new. bo_parent obj = None"
    and refs: "map il_blend_empty r = map Some [length (scene @ [?obj]) ..< length s]"
    by blast
  have p: "bo_parent ?obj = None" by (simp add: mc_pivot_def new_object_def)
  have "scene' = scene @ (?obj # new) \<and> (\<forall>obj\<in>set (?obj # new). bo_parent obj = None)"
    using new p eq by simp
  moreover have "map il_blend_empty locators' = map Some [length scene ..< length scene']"
  proof -
    have lt: "length scene < length scene'" using new eq by simp
    have r': "map il_blend_empty r = map Some [Suc (length scene) ..< length scene']"
      using refs unfolding eq(1) by simp
    show ?thesis by (subst upt_conv_Cons [OF lt]) (simp add: eq(2) r')
  qed
  ultimately show ?case by blast
qed

lemma upt_append3:
  "a \<le> b \<Longrightarrow> b \<le> c \<Longrightarrow> [a ..< b] @ [b ..< c] = [a ..< c]"
  by (metis le_Suc_ex upt_add_eq_append)

lemma create_objects_result:
  "create_objects scene bones = (scene', bones') \<Longrightarrow>
   (\<exists>new. scene' = scene @ new \<and> (\<forall>obj\<in>set new. bo_parent obj = None)) \<and>
   concat (map (bone_refs \<circ> snd) bones') = map Some [length scene ..< length scene'] \<and>
   map fst bones' = map fst bones \<and>
   map (ib_parent \<circ> snd) bones' = map (ib_parent \<circ> snd) bones"
proof (induction bones arbitrary: scene scene' bones')
  case Nil
  then show ?case by simp
next
  case (Cons kb rest)
  obtain k bone where kb: "kb = (k, bone)" by (cases kb)
  let ?obj = "(mc_pivot new_object (ib_pivot bone))
                 \<lparr>bo_name := ib_name bone, bo_custom := [''mc_is_bone'']\<rparr> :: 'a blend_object"
  obtain s1 cubes where c: "create_cubes (scene @ [?obj]) (ib_cubes bone) = (s1, cubes)"
    by (cases "create_cubes (scene @ [?obj]) (ib_cubes bone)")
  obtain s2 locators where l: "create_locators s1 (ib_locators bone) = (s2, locators)"
    by (cases "create_locators s1 (ib_locators bone)")
  obtain s3 rest' where r: "create_objects s2 rest = (s3, rest')"
    by (cases "create_objects s2 rest")
  let ?bone' = "bone\<lparr>ib_blend_empty := Some (length scene), ib_cubes := cubes,
                      ib_locators := locators\<rparr>"
  from Cons.prems c l r have eq: "scene' = s3" "bones' = (k, ?bone') # rest'"
    by (simp_all add: kb Let_def)
  from create_cubes_result [OF c] obtain n1 where n1: "s1 = (scene @ [?obj]) @ n1"
      "\<forall>obj\<in>set n1. bo_parent obj = None"
    and r1: "map ic_blend_cube cubes = map Some [length (scene @ [?obj]) ..< length s1]"
    by blast
  from create_locators_result [OF l] obtain n2 where n2: "s2 = s1 @ n2"
      "\<forall>obj\<in>set n2. bo_parent obj = None"
    and r2: "map il_blend_empty locators = map Some [length s1 ..< length s2]"
    by blast
  from Cons.IH [OF r] obtain n3 where n3: "s3 = s2 @ n3"
      "\<forall>obj\<in>set n3. bo_parent obj = None"
    and r3: "concat (map (bone_refs \<circ> snd) rest') = map Some [length s2 ..< length s3]"
    and keys: "map fst rest' = map fst rest"
    and parents: "map (ib_parent \<circ> snd) rest' = map (ib_parent \<circ> snd) rest"
    by blast
  have p: "bo_parent ?obj = None" by (simp add: mc_pivot_def new_object_def)
  have A: "scene' = scene @ (?obj # n1 @ n2 @ n3) \<and>
           (\<forall>obj\<in>set (?obj # n1 @ n2 @ n3). bo_parent obj = None)"
    using n1 n2 n3 p eq by auto
  have le: "Suc (length scene) \<le> length s1" "length s1 \<le> length s2" "length s2 \<le> length s3"
    using n1 n2 n3 by simp_all
  have "bone_refs ?bone' = map Some ([length scene ..< Suc (length scene)]
          @ [Suc (length scene) ..< length s1] @ [length s1 ..< length s2])"
    using r1 r2 by (simp add: bone_refs_def)
  also have "\<dots> = map Some [length scene ..< length s2]"
    using le by (simp add: upt_append3 upt_conv_Cons)
  finally have "concat (map (bone_refs \<circ> snd) bones')
        = map Some ([length scene ..< length s2] @ [length s2 ..< length s3])"
    using r3 eq by simp
  also have "\<dots> = map Some [length scene ..< length s3]"
    using le by (subst upt_append3) simp_all
  finally have B: "concat (map (bone_refs \<circ> snd) bones') = map Some [length scene ..< length scene']"
    using eq by simp
  have C: "map fst bones' = map fst (kb # rest) \<and>
           map (ib_parent \<circ> snd) bones' = map (ib_parent \<circ> snd) (kb # rest)"
    using keys parents eq kb by simp
  from A B C show ?case by blast
qed


lemma set_parent_frame:
  assumes "child \<in> Some ` {..<length scene}" and "parent \<in> Some ` {..<length scene}"
  shows "\<exists>scene'. set_parent f child parent scene = Inr scene' \<and> length scene' = length scene \<and>
           (\<forall>r. Some r \<noteq> child \<longrightarrow> scene' ! r = scene ! r)"
  using assms by (auto simp: set_parent_def)

lemma set_parents_frame:
  assumes "set children \<subseteq> Some ` {..<length scene}" and "parent \<in> Some ` {..<length scene}"
  shows "\<exists>scene'. set_parents f children parent scene = Inr scene' \<and>
           length scene' = length scene \<and>
           (\<forall>r. Some r \<notin> set children \<longrightarrow> scene' ! r = scene ! r)"
  using assms
proof (induction children arbitrary: scene)
  case Nil
  then show ?case by simp
next
  case (Cons child rest)
  from Cons.prems have "child \<in> Some ` {..<length scene}" by simp
  from set_parent_frame [OF this Cons.prems(2), of f] obtain s1
    where s1: "set_parent f child parent scene = Inr s1" "length s1 = length scene"
      "\<forall>r. Some r \<noteq> child \<longrightarrow> s1 ! r = scene ! r"
    by blast
  from Cons.prems s1(2) have "set rest \<subseteq> Some ` {..<length s1}"
      "parent \<in> Some ` {..<length s1}"
    by simp_all
  from Cons.IH [OF this] obtain s2
    where s2: "set_parents f rest parent s1 = Inr s2" "length s2 = length s1"
      "\<forall>r. Some r \<notin> set rest \<longrightarrow> s2 ! r = s1 ! r"
    by blast
  have "set_parents f (child # rest) parent scene = Inr s2"
    using s1(1) s2(1) by (simp add: bind_err_def)
  moreover have "length s2 = length scene" using s1(2) s2(2) by simp
  moreover have "\<forall>r. Some r \<notin> set (child # rest) \<longrightarrow> s2 ! r = scene ! r"
    using s1(3) s2(3) by auto
  ultimately show ?case by blast
qed

lemma parent_bone_frame:
  assumes "set (bone_refs bone) \<subseteq> Some ` {..<length scene}"
    and "\<forall>(k, b)\<in>set bones. ib_blend_empty b \<in> Some ` {..<length scene}"
  shows "\<exists>scene'. parent_bone f bones bone scene = Inr scene' \<and>
           length scene' = length scene \<and>
           (\<forall>r. Some r \<notin> set (link_children bones bone) \<longrightarrow> scene' ! r = scene ! r)"
proof -
  from assms(1) have own: "ib_blend_empty bone \<in> Some ` {..<length scene}"
    and cubes: "set (map ic_blend_cube (ib_cubes bone)) \<subseteq> Some ` {..<length scene}"
    and locators: "set (map il_blend_empty (ib_locators bone)) \<subseteq> Some ` {..<length scene}"
    by (auto simp: bone_refs_def)
  let ?first = "case ib_parent bone of
          None \<Rightarrow> Inr scene
        | Some parent_name \<Rightarrow>
            (case map_of bones parent_name of
               None \<Rightarrow> Inr scene
             | Some parent \<Rightarrow>
                 set_parent f (ib_blend_empty bone) (ib_blend_empty parent) scene)"
  have "\<exists>s1. ?first = Inr s1 \<and> length s1 = length scene \<and>
          (\<forall>r. Some r \<notin> set (if has_parent_bone bones bone then [ib_blend_empty bone] else [])
                \<longrightarrow> s1 ! r = scene ! r)"
  proof (cases "has_parent_bone bones bone")
    case False
    then have "?first = Inr scene"
      by (auto simp: has_parent_bone_def split: option.splits)
    then show ?thesis by simp
  next
    case True
    then obtain pn parent where pn: "ib_parent bone = Some pn" "map_of bones pn = Some parent"
      by (auto simp: has_parent_bone_def split: option.splits)
    from pn(2) have "(pn, parent) \<in> set bones" by (rule map_of_SomeD)
    with assms(2) have "ib_blend_empty parent \<in> Some ` {..<length scene}" by blast
    from set_parent_frame [OF own this, of f] pn True show ?thesis by simp
  qed
  then obtain s1 where s1: "?first = Inr s1" "length s1 = length scene"
    "\<forall>r. Some r \<notin> set (if has_parent_bone bones bone then [ib_blend_empty bone] else [])
           \<longrightarrow> s1 ! r = scene ! r"
    by blast
  from set_parents_frame [of "map ic_blend_cube (ib_cubes bone)" s1 "ib_blend_empty bone" f]
    cubes own s1(2)
  obtain s2 where s2: "set_parents f (map ic_blend_cube (ib_cubes bone)) (ib_blend_empty bone) s1
                        = Inr s2" "length s2 = length s1"
    "\<forall>r. Some r \<notin> set (map ic_blend_cube (ib_cubes bone)) \<longrightarrow> s2 ! r = s1 ! r"
    by auto
  from set_parents_frame [of "map il_blend_empty (ib_locators bone)" s2 "ib_blend_empty bone" f]
    locators own s1(2) s2(2)
  obtain s3 where s3: "set_parents f (map il_blend_empty (ib_locators bone)) (ib_blend_empty bone) s2
                        = Inr s3" "length s3 = length s2"
    "\<forall>r. Some r \<notin> set (map il_blend_empty (ib_locators bone)) \<longrightarrow> s3 ! r = s2 ! r"
    by auto
  have "parent_bone f bones bone scene = Inr s3"
    unfolding parent_bone_def s1(1) using s2(1) s3(1) by (simp add: bind_err_def)
  moreover have "length s3 = length scene" using s1(2) s2(2) s3(2) by simp
  moreover have "\<forall>r. Some r \<notin> set (link_children bones bone) \<longrightarrow> s3 ! r = scene ! r"
    using s1(3) s2(3) s3(3) unfolding link_children_def by (simp split: if_splits)
  ultimately show ?thesis by blast
qed

lemma parent_objects_frame:
  assumes "set (concat (map (bone_refs \<circ> snd) todo)) \<subseteq> Some ` {..<length scene}"
    and "\<forall>(k, b)\<in>set bones. ib_blend_empty b \<in> Some ` {..<length scene}"
  shows "\<exists>scene'. parent_objects f bones todo scene = Inr scene' \<and>
           length scene' = length scene \<and>
           (\<forall>r. Some r \<notin> set (concat (map (link_children bones \<circ> snd) todo))
                 \<longrightarrow> scene' ! r = scene ! r)"
  using assms
proof (induction todo arbitrary: scene)
  case Nil
  then show ?case by simp
next
  case (Cons kb rest)
  obtain k bone where kb: "kb = (k, bone)" by (cases kb)
  from Cons.prems(1) have "set (bone_refs bone) \<subseteq> Some ` {..<length scene}"
    by (simp add: kb)
  from parent_bone_frame [OF this Cons.prems(2), of f] obtain s1
    where s1: "parent_bone f bones bone scene = Inr s1" "length s1 = length scene"
      "\<forall>r. Some r \<notin> set (link_children bones bone) \<longrightarrow> s1 ! r = scene ! r"
    by blast
  from Cons.prems s1(2)
  have "set (concat (map (bone_refs \<circ> snd) rest)) \<subseteq> Some ` {..<length s1}"
    "\<forall>(k, b)\<in>set bones. ib_blend_empty b \<in> Some ` {..<length s1}"
    by simp_all
  from Cons.IH [OF this] obtain s2
    where s2: "parent_objects f bones rest s1 = Inr s2" "length s2 = length s1"
      "\<forall>r. Some r \<notin> set (concat (map (link_children bones \<circ> snd) rest)) \<longrightarrow> s2 ! r = s1 ! r"
    by blast
  have "parent_objects f bones (kb # rest) scene = Inr s2"
    using s1(1) s2(1) by (simp add: kb bind_err_def)
  moreover have "length s2 = length scene" using s1(2) s2(2) by simp
  moreover have "\<forall>r. Some r \<notin> set (concat (map (link_children bones \<circ> snd) (kb # rest)))
                      \<longrightarrow> s2 ! r = scene ! r"
    using s1(3) s2(3) by (simp add: kb)
  ultimately show ?case by blast
qed

lemma link_children_subset: "set (link_children bones bone) \<subseteq> set (bone_refs bone)"
  by (auto simp: link_children_def bone_refs_def)

lemma dangling_not_linked:
  assumes "distinct (concat (map (bone_refs \<circ> snd) todo))"
    and "(k, bone) \<in> set todo"
    and "\<not> has_parent_bone bones bone"
  shows "ib_blend_empty bone \<notin> set (concat (map (link_children bones \<circ> snd) todo))"
  using assms(1,2)
proof (induction todo)
  case Nil
  then show ?case by simp
next
  case (Cons x rest)
  from Cons.prems(1) have d: "distinct (bone_refs (snd x))"
    "distinct (concat (map (bone_refs \<circ> snd) rest))"
    "set (bone_refs (snd x)) \<inter> set (concat (map (bone_refs \<circ> snd) rest)) = {}"
    by (simp_all add: comp_def)
  have sub: "set (concat (map (link_children bones \<circ> snd) rest))
               \<subseteq> set (concat (map (bone_refs \<circ> snd) rest))"
    using link_children_subset by fastforce
  show ?case
  proof (cases "x = (k, bone)")
    case True
    have own: "ib_blend_empty bone \<in> set (bone_refs bone)" by (simp add: bone_refs_def)
    have "ib_blend_empty bone \<notin> set (link_children bones bone)"
      using d(1) assms(3) unfolding True by (simp add: link_children_def bone_refs_def)
    moreover have "ib_blend_empty bone \<notin> set (concat (map (link_children bones \<circ> snd) rest))"
      using own d(3) sub unfolding True snd_conv by blast
    ultimately show ?thesis by (simp add: True)
  next
    case False
    with Cons.prems(2) have mem: "(k, bone) \<in> set rest" by simp
    then have "ib_blend_empty bone \<in> set (concat (map (bone_refs \<circ> snd) rest))"
      by (force simp: bone_refs_def)
    with d(3) link_children_subset [of bones "snd x"]
    have "ib_blend_empty bone \<notin> set (link_children bones (snd x))" by blast
    with Cons.IH [OF d(2) mem] show ?thesis by simp
  qed
qed

lemma build_dangling:
  "\<exists>scene2 bones1.
     build inverted_world bones scene = Inr (scene2, bones1) \<and>
     map fst bones1 = map fst bones \<and>
     map (ib_parent \<circ> snd) bones1 = map (ib_parent \<circ> snd) bones \<and>
     (\<forall>(k, bone)\<in>set bones1.
        \<exists>r. ib_blend_empty bone = Some r \<and> r < length scene2 \<and>
            (\<not> has_parent_bone bones bone \<longrightarrow> bo_parent (scene2 ! r) = None))"
proof -
  obtain scene1 bones1 where c: "create_objects scene bones = (scene1, bones1)"
    by (cases "create_objects scene bones")
  from create_objects_result [OF c] obtain new
    where new: "scene1 = scene @ new" "\<forall>obj\<in>set new. bo_parent obj = None"
      and refs: "concat (map (bone_refs \<circ> snd) bones1) = map Some [length scene ..< length scene1]"
      and keys: "map fst bones1 = map fst bones"
      and parents: "map (ib_parent \<circ> snd) bones1 = map (ib_parent \<circ> snd) bones"
    by blast
  have valid: "set (concat (map (bone_refs \<circ> snd) bones1)) \<subseteq> Some ` {..<length scene1}"
    unfolding refs by auto
  have own: "ib_blend_empty b \<in> set (concat (map (bone_refs \<circ> snd) bones1))"
    if "(k, b) \<in> set bones1" for k b
    using that by (force simp: bone_refs_def)
  have valid_own: "\<forall>(k, b)\<in>set bones1. ib_blend_empty b \<in> Some ` {..<length scene1}"
    using own valid by blast
  from parent_objects_frame [OF valid valid_own, of inverted_world] obtain scene2
    where p: "parent_objects inverted_world bones1 bones1 scene1 = Inr scene2"
      "length scene2 = length scene1"
      "\<forall>r. Some r \<notin> set (concat (map (link_children bones1 \<circ> snd) bones1))
            \<longrightarrow> scene2 ! r = scene1 ! r"
    by blast
  have b: "build inverted_world bones scene = Inr (scene2, bones1)"
    by (simp add: build_def c p(1) bind_err_def)
  have dist: "distinct (concat (map (bone_refs \<circ> snd) bones1))"
    unfolding refs by (simp add: distinct_map)
  have same_keys: "has_parent_bone bones1 bone = has_parent_bone bones bone" for bone
  proof -
    have "fst ` set bones1 = fst ` set bones"
      using keys by (metis set_map)
    then have "(map_of bones1 pn = None) = (map_of bones pn = None)" for pn
      by (simp add: map_of_eq_None_iff)
    then show ?thesis by (simp add: has_parent_bone_def split: option.splits)
  qed
  have "\<exists>r. ib_blend_empty bone = Some r \<and> r < length scene2 \<and>
            (\<not> has_parent_bone bones bone \<longrightarrow> bo_parent (scene2 ! r) = None)"
    if mem: "(k, bone) \<in> set bones1" for k bone
  proof -
    from own [OF mem] refs obtain r where r: "ib_blend_empty bone = Some r"
      "length scene \<le> r" "r < length scene1"
      by auto
    have "bo_parent (scene2 ! r) = None" if "\<not> has_parent_bone bones bone"
    proof -
      from that have "\<not> has_parent_bone bones1 bone" by (simp add: same_keys)
      from dangling_not_linked [OF dist mem this] r(1) p(3)
      have "scene2 ! r = scene1 ! r" by simp
      also have "\<dots> = new ! (r - length scene)"
        using r(2) by (simp add: new(1) nth_append)
      finally show ?thesis using new r by simp
    qed
    with r p(2) show ?thesis by simp
  qed
  with b keys parents show ?thesis by blast
qed


section \<open>The claims on pivots, output numbers, name conflicts and parenting\<close>






text \<open>
  Claim C8: a selection in which two nodes of type \<open>BONE\<close> or \<open>BOTH\<close> share the
  exported name makes the export fail with the name conflict that carries the name.
  \<^verbatim>\<open>get_name_conflicts\<close> reports a conflict by returning the first name that it meets a
  second time, and no conflict by returning the empty string. The exported name of an
  object is the text before the first dot of its name, so the empties \<open>.a\<close> and \<open>.b\<close>
  share the empty exported name: the function returns it, which is what it returns for
  a selection without conflict, while for the empties \<open>arm\<close> and \<open>arm.001\<close> it
  returns \<open>arm\<close>.
\<close>

theorem empty_name_conflict_unreported:
  "bone_names dotted_properties = [Inr [], Inr []]
   \<and> get_name_conflicts dotted_properties = Inr []
   \<and> get_name_conflicts [bone_at ''arm'', bone_at ''leg''] = Inr []
   \<and> get_name_conflicts arm_properties = Inr ''arm''"
proof -
  have a: "bone_names dotted_properties = [Inr [], Inr []]"
    by code_simp
  have b: "get_name_conflicts dotted_properties = Inr []"
    by code_simp
  have c: "get_name_conflicts [bone_at ''arm'', bone_at ''leg''] = Inr []"
    by code_simp
  have d: "get_name_conflicts arm_properties = Inr ''arm''"
    by code_simp
  show ?thesis by (intro conjI a b c d)
qed

text \<open>
  Claim C10: in the build of the imported geometry a bone whose declared parent is not
  the name of a bone of the geometry is left without parent, as a bone that declares no
  parent is; the creation and the parenting of the objects do not fail, whatever the
  declared parents are. (The checks of Blender itself when a link is set are outside
  the sources.)
\<close>

theorem build_dangling_parent_unparented:
  "\<exists>scene2 bones1.
     build inverted_world bones scene = Inr (scene2, bones1) \<and>
     map fst bones1 = map fst bones \<and>
     map (ib_parent \<circ> snd) bones1 = map (ib_parent \<circ> snd) bones \<and>
     (\<forall>(k, bone)\<in>set bones1.
        \<exists>r. ib_blend_empty bone = Some r \<and> r < length scene2 \<and>
            (\<not> has_parent_bone bones bone \<longrightarrow> bo_parent (scene2 ! r) = None))"
  by (rule build_dangling)


lemma build_example:
  "build (\<lambda>scene r. bo_location (scene ! r)) dangling_bones [] =
     Inr ([\<lparr>bo_name = ''a'', bo_location = (0, 0, 0), bo_custom = [''mc_is_bone''],
             bo_parent = None, bo_matrix_parent_inverse = None\<rparr>,
           \<lparr>bo_name = ''b'', bo_location = (0, 0, 0), bo_custom = [''mc_is_bone''],
             bo_parent = Some 0, bo_matrix_parent_inverse = Some (0, 0, 0)\<rparr>],
          [(''a'', (import_bone ''a'' (Some ''zz''))\<lparr>ib_blend_empty := Some 0\<rparr>),
           (''b'', (import_bone ''b'' (Some ''a''))\<lparr>ib_blend_empty := Some 1\<rparr>)])"
  by code_simp

theorem build_dangling_parent_unparented_witness:
  "\<exists>scene2 bones1 bone.
     build (\<lambda>scene r. bo_location (scene ! r)) dangling_bones [] = Inr (scene2, bones1) \<and>
     (''a'', bone) \<in> set bones1 \<and> ib_parent bone = Some ''zz'' \<and>
     \<not> has_parent_bone dangling_bones bone \<and>
     (\<exists>r. ib_blend_empty bone = Some r \<and> r < length scene2 \<and> bo_parent (scene2 ! r) = None)"
proof -
  from build_dangling_parent_unparented
    [where inverted_world = "\<lambda>scene r. bo_location (scene ! r)" and bones = dangling_bones
       and scene = "[]"]
  obtain scene2 bones1 where b: "build (\<lambda>scene r. bo_location (scene ! r)) dangling_bones []
        = Inr (scene2, bones1)"
    and all: "\<forall>(k, bone)\<in>set bones1.
        \<exists>r. ib_blend_empty bone = Some r \<and> r < length scene2 \<and>
            (\<not> has_parent_bone dangling_bones bone \<longrightarrow> bo_parent (scene2 ! r) = None)"
    by blast
  let ?bone = "(import_bone ''a'' (Some ''zz''))\<lparr>ib_blend_empty := Some 0\<rparr>"
  from b have mem: "(''a'', ?bone) \<in> set bones1"
    unfolding build_example by auto
  have p: "ib_parent ?bone = Some ''zz''" by (simp add: import_bone_def)
  have d: "\<not> has_parent_bone dangling_bones ?bone"
    by code_simp
  from all mem d have "\<exists>r. ib_blend_empty ?bone = Some r \<and> r < length scene2 \<and>
      bo_parent (scene2 ! r) = None"
    by blast
  with b mem p d show ?thesis by blast
qed

section \<open>Properties of the schema loader\<close>


lemma parser_version_1_12: "parser_version (JStr ''1.12.0'') = Inr ''1.12.0''"
  by code_simp

lemma parser_version_1_8: "parser_version (JStr ''1.8.0'') = Inr ''1.8.0''"
  by code_simp


lemma assert_has_accepted_keys_only_iff:
  "assert_has_accepted_keys_only what has_keys accepted_keys json_path =
     (if has_keys \<subseteq> accepted_keys then Inr ()
      else Inl (FileIsNotAModelException
                  (HasUnexpectedProperties json_path what (has_keys - accepted_keys))))"
  by (auto simp: assert_has_accepted_keys_only_def Let_def)










lemma chain_Nil_Inr: "chain [] r = Inr r' \<Longrightarrow> r' = r"
  by simp











lemma load_cube_1_12_unfold:
  "parser_version format_version = Inr ''1.12.0'' \<Longrightarrow>
   load_cube format_version (JDict cube) cube_path default_mirror =
     then_do (assert_has_accepted_keys_only ''cube'' (keys cube)
                {''mirror'', ''inflate'', ''pivot'', ''rotation'', ''origin'', ''size'', ''uv''}
                cube_path)
       (chain
          [load_vector cube ''origin'' 3 cube_path (\<lambda>v r. r\<lparr>lc_origin := v\<rparr>),
           load_vector cube ''size'' 3 cube_path (\<lambda>v r. r\<lparr>lc_size := v\<rparr>),
           load_vector cube ''rotation'' 3 cube_path (\<lambda>v r. r\<lparr>lc_rotation := v\<rparr>),
           load_vector cube ''pivot'' 3 cube_path (\<lambda>v r. r\<lparr>lc_pivot := v\<rparr>),
           load_inflate cube cube_path,
           load_bool cube ''mirror'' cube_path (\<lambda>b r. r\<lparr>lc_mirror := b\<rparr>),
           load_uv_1_12 cube cube_path]
          (default_cube default_mirror))"
  by (simp add: load_cube_def bind_err_def as_dict_def Let_def del: chain.simps)

lemma load_cube_1_8_unfold:
  "parser_version format_version = Inr ''1.8.0'' \<Longrightarrow>
   load_cube format_version (JDict cube) cube_path default_mirror =
     then_do (assert_has_accepted_keys_only ''cube'' (keys cube)
                {''origin'', ''size'', ''uv'', ''inflate'', ''mirror''} cube_path)
       (chain
          [load_vector cube ''origin'' 3 cube_path (\<lambda>v r. r\<lparr>lc_origin := v\<rparr>),
           load_vector cube ''size'' 3 cube_path (\<lambda>v r. r\<lparr>lc_size := v\<rparr>),
           load_inflate cube cube_path,
           load_bool cube ''mirror'' cube_path (\<lambda>b r. r\<lparr>lc_mirror := b\<rparr>),
           load_uv_1_8 cube cube_path]
          (default_cube default_mirror))"
  by (simp add: load_cube_def bind_err_def as_dict_def Let_def del: chain.simps)










lemma chain_append: "chain (xs @ ys) r = bind_err (chain xs r) (chain ys)"
  by (induction xs arbitrary: r) (simp_all add: bind_err_def split: sum.splits)

lemma map_of_without:
  "k \<noteq> k0 \<Longrightarrow> map_of (filter (\<lambda>(k, v). k \<noteq> k0) obj) k = map_of obj k"
  by (induction obj) auto

lemma map_of_without_same: "map_of (filter (\<lambda>(k, v). k \<noteq> k0) obj) k0 = None"
  by (induction obj) auto

lemma keys_without: "keys (filter (\<lambda>(k, v). k \<noteq> k0) obj) = keys obj - {k0}"
  by (auto simp: keys_def)

lemma if_present_without:
  "k \<noteq> k0 \<Longrightarrow> if_present (filter (\<lambda>(k, v). k \<noteq> k0) obj) k = if_present obj k"
  by (intro ext) (simp add: if_present_def map_of_without)

lemma load_vector_without:
  "k \<noteq> k0 \<Longrightarrow>
   load_vector (filter (\<lambda>(k, v). k \<noteq> k0) obj) k n path store = load_vector obj k n path store"
  by (intro ext) (simp add: load_vector_def if_present_without)

lemma load_bool_without:
  "k \<noteq> k0 \<Longrightarrow>
   load_bool (filter (\<lambda>(k, v). k \<noteq> k0) obj) k path store = load_bool obj k path store"
  by (intro ext) (simp add: load_bool_def if_present_without)

lemma load_inflate_without:
  "''inflate'' \<noteq> k0 \<Longrightarrow>
   load_inflate (filter (\<lambda>(k, v). k \<noteq> k0) obj) path = load_inflate obj path"
  by (intro ext) (simp add: load_inflate_def if_present_without)

lemma load_uv_absent:
  "map_of cube ''uv'' = None \<Longrightarrow> load_uv_1_12 cube path r = Inr r"
  "map_of cube ''uv'' = None \<Longrightarrow> load_uv_1_8 cube path r = Inr r"
  by (simp_all add: load_uv_1_12_def load_uv_1_8_def if_present_def)

lemma load_uv_dict:
  "map_of cube ''uv'' = Some (JDict d) \<Longrightarrow>
   load_uv_1_12 cube path r = Inl (ImportingNotImplementedError ''uv dictionary'' (path @ [Key ''uv'']))"
  "map_of cube ''uv'' = Some (JDict d) \<Longrightarrow>
   load_uv_1_8 cube path r =
     Inl (FileIsNotAModelException (IsNotAnInstanceOf (path @ [Key ''uv'']) ''uv'' [TList]))"
  by (simp_all add: load_uv_1_12_def load_uv_1_8_def if_present_def assert_is_type_def
        then_do_def)

lemma then_do_Inr_iff: "(then_do check rest = Inr r) = (check = Inr () \<and> rest = Inr r)"
  by (cases check) (simp_all add: then_do_def)

lemma bind_err_Inr_unit: "bind_err m (chain []) = m"
  by (cases m) (simp_all add: bind_err_def)

lemma subset_without: "S - {x} \<subseteq> A \<Longrightarrow> x \<in> A \<Longrightarrow> S \<subseteq> A"
  by blast

lemma load_cube_uv_dict_1_12:
  assumes pv: "parser_version format_version = Inr ''1.12.0''"
    and uv: "map_of cube ''uv'' = Some (JDict d)"
    and rest: "load_cube format_version (JDict (filter (\<lambda>(k, v). k \<noteq> ''uv'') cube))
                 cube_path default_mirror = Inr r"
  shows "load_cube format_version (JDict cube) cube_path default_mirror =
           Inl (ImportingNotImplementedError ''uv dictionary'' (cube_path @ [Key ''uv'']))"
proof -
  let ?c = "filter (\<lambda>(k, v). k \<noteq> ''uv'') cube"
  let ?A = "{''mirror'', ''inflate'', ''pivot'', ''rotation'', ''origin'', ''size'', ''uv''}"
  let ?L = "[load_vector cube ''origin'' 3 cube_path (\<lambda>v r. r\<lparr>lc_origin := v\<rparr>),
           load_vector cube ''size'' 3 cube_path (\<lambda>v r. r\<lparr>lc_size := v\<rparr>),
           load_vector cube ''rotation'' 3 cube_path (\<lambda>v r. r\<lparr>lc_rotation := v\<rparr>),
           load_vector cube ''pivot'' 3 cube_path (\<lambda>v r. r\<lparr>lc_pivot := v\<rparr>),
           load_inflate cube cube_path,
           load_bool cube ''mirror'' cube_path (\<lambda>b r. r\<lparr>lc_mirror := b\<rparr>)]"
  have unf: "load_cube format_version (JDict obj) cube_path default_mirror =
      then_do (assert_has_accepted_keys_only ''cube'' (keys obj) ?A cube_path)
        (chain ([load_vector obj ''origin'' 3 cube_path (\<lambda>v r. r\<lparr>lc_origin := v\<rparr>),
           load_vector obj ''size'' 3 cube_path (\<lambda>v r. r\<lparr>lc_size := v\<rparr>),
           load_vector obj ''rotation'' 3 cube_path (\<lambda>v r. r\<lparr>lc_rotation := v\<rparr>),
           load_vector obj ''pivot'' 3 cube_path (\<lambda>v r. r\<lparr>lc_pivot := v\<rparr>),
           load_inflate obj cube_path,
           load_bool obj ''mirror'' cube_path (\<lambda>b r. r\<lparr>lc_mirror := b\<rparr>)]
           @ [load_uv_1_12 obj cube_path]) (default_cube default_mirror))" for obj
    unfolding load_cube_1_12_unfold [OF pv] by (simp del: chain.simps)
  from rest have acc': "assert_has_accepted_keys_only ''cube'' (keys ?c) ?A cube_path = Inr ()"
    and ch': "chain (?L @ [load_uv_1_12 ?c cube_path]) (default_cube default_mirror) = Inr r"
    unfolding unf then_do_Inr_iff
    by (simp_all add: load_vector_without load_bool_without load_inflate_without
          del: chain.simps)
  from acc' have "keys ?c \<subseteq> ?A"
    by (simp add: assert_has_accepted_keys_only_iff split: if_splits)
  then have "keys cube \<subseteq> ?A"
    unfolding keys_without by (rule subset_without) simp
  then have acc: "assert_has_accepted_keys_only ''cube'' (keys cube) ?A cube_path = Inr ()"
    by (simp add: assert_has_accepted_keys_only_iff)
  from ch' obtain r6 where r6: "chain ?L (default_cube default_mirror) = Inr r6"
    unfolding chain_append by (cases "chain ?L (default_cube default_mirror)")
      (simp_all add: bind_err_def)
  have "chain (?L @ [load_uv_1_12 cube cube_path]) (default_cube default_mirror) =
        Inl (ImportingNotImplementedError ''uv dictionary'' (cube_path @ [Key ''uv'']))"
    unfolding chain_append r6 by (simp add: bind_err_def load_uv_dict(1) [OF uv])
  then show ?thesis unfolding unf acc by (simp add: then_do_def)
qed

lemma load_cube_uv_dict_1_8:
  assumes pv: "parser_version format_version = Inr ''1.8.0''"
    and uv: "map_of cube ''uv'' = Some (JDict d)"
    and rest: "load_cube format_version (JDict (filter (\<lambda>(k, v). k \<noteq> ''uv'') cube))
                 cube_path default_mirror = Inr r"
  shows "load_cube format_version (JDict cube) cube_path default_mirror =
           Inl (FileIsNotAModelException
                  (IsNotAnInstanceOf (cube_path @ [Key ''uv'']) ''uv'' [TList]))"
proof -
  let ?c = "filter (\<lambda>(k, v). k \<noteq> ''uv'') cube"
  let ?A = "{''origin'', ''size'', ''uv'', ''inflate'', ''mirror''}"
  let ?L = "[load_vector cube ''origin'' 3 cube_path (\<lambda>v r. r\<lparr>lc_origin := v\<rparr>),
           load_vector cube ''size'' 3 cube_path (\<lambda>v r. r\<lparr>lc_size := v\<rparr>),
           load_inflate cube cube_path,
           load_bool cube ''mirror'' cube_path (\<lambda>b r. r\<lparr>lc_mirror := b\<rparr>)]"
  have unf: "load_cube format_version (JDict obj) cube_path default_mirror =
      then_do (assert_has_accepted_keys_only ''cube'' (keys obj) ?A cube_path)
        (chain ([load_vector obj ''origin'' 3 cube_path (\<lambda>v r. r\<lparr>lc_origin := v\<rparr>),
           load_vector obj ''size'' 3 cube_path (\<lambda>v r. r\<lparr>lc_size := v\<rparr>),
           load_inflate obj cube_path,
           load_bool obj ''mirror'' cube_path (\<lambda>b r. r\<lparr>lc_mirror := b\<rparr>)]
           @ [load_uv_1_8 obj cube_path]) (default_cube default_mirror))" for obj
    unfolding load_cube_1_8_unfold [OF pv] by (simp del: chain.simps)
  from rest have acc': "assert_has_accepted_keys_only ''cube'' (keys ?c) ?A cube_path = Inr ()"
    and ch': "chain (?L @ [load_uv_1_8 ?c cube_path]) (default_cube default_mirror) = Inr r"
    unfolding unf then_do_Inr_iff
    by (simp_all add: load_vector_without load_bool_without load_inflate_without
          del: chain.simps)
  from acc' have "keys ?c \<subseteq> ?A"
    by (simp add: assert_has_accepted_keys_only_iff split: if_splits)
  then have "keys cube \<subseteq> ?A"
    unfolding keys_without by (rule subset_without) simp
  then have acc: "assert_has_accepted_keys_only ''cube'' (keys cube) ?A cube_path = Inr ()"
    by (simp add: assert_has_accepted_keys_only_iff)
  from ch' obtain r6 where r6: "chain ?L (default_cube default_mirror) = Inr r6"
    unfolding chain_append by (cases "chain ?L (default_cube default_mirror)")
      (simp_all add: bind_err_def)
  have "chain (?L @ [load_uv_1_8 cube cube_path]) (default_cube default_mirror) =
        Inl (FileIsNotAModelException
               (IsNotAnInstanceOf (cube_path @ [Key ''uv'']) ''uv'' [TList]))"
    unfolding chain_append r6 by (simp add: bind_err_def load_uv_dict(2) [OF uv])
  then show ?thesis unfolding unf acc by (simp add: then_do_def)
qed

































section \<open>The claims on the schema loader\<close>




text \<open>
  Claim C7, as stated: every cube whose \<open>uv\<close> is a JSON object fails with the
  not-implemented error. In a document of the 1.8.0 format the loader requires a list
  and rejects the object with the structure error.
\<close>

theorem uv_dictionary_1_8_counterexample:
  "ModelLoader one_eight_uv_document [] =
     Inl (FileIsNotAModelException
            (IsNotAnInstanceOf
               [Key ''geometry.a'', Key ''bones'', Idx 0, Key ''cubes'', Idx 0, Key ''uv'']
               ''uv'' [TList]))"
  by code_simp

text \<open>
  Claim C7, amended: for a cube whose \<open>uv\<close> is a JSON object and whose other keys load
  without error, the loader of the 1.12.0 format fails with
  \<^verbatim>\<open>ImportingNotImplementedError('uv dictionary', path + ['uv'])\<close>, and the loader of the
  1.8.0 format fails with \<^verbatim>\<open>FileIsNotAModelException\<close> at the same path.
\<close>

theorem uv_dictionary_not_implemented:
  "(parser_version format_version = Inr ''1.12.0'' \<and> map_of cube ''uv'' = Some (JDict d) \<and>
    load_cube format_version (JDict (filter (\<lambda>(k, v). k \<noteq> ''uv'') cube))
      cube_path default_mirror = Inr r \<longrightarrow>
      load_cube format_version (JDict cube) cube_path default_mirror =
        Inl (ImportingNotImplementedError ''uv dictionary'' (cube_path @ [Key ''uv''])))
   \<and> (parser_version format_version = Inr ''1.8.0'' \<and> map_of cube ''uv'' = Some (JDict d) \<and>
    load_cube format_version (JDict (filter (\<lambda>(k, v). k \<noteq> ''uv'') cube))
      cube_path default_mirror = Inr r \<longrightarrow>
      load_cube format_version (JDict cube) cube_path default_mirror =
        Inl (FileIsNotAModelException
               (IsNotAnInstanceOf (cube_path @ [Key ''uv'']) ''uv'' [TList])))"
  using load_cube_uv_dict_1_12 [of format_version cube d cube_path default_mirror r]
    load_cube_uv_dict_1_8 [of format_version cube d cube_path default_mirror r]
  by blast

theorem uv_dictionary_not_implemented_witness:
  "parser_version (JStr ''1.12.0'') = Inr ''1.12.0''
   \<and> map_of [(''size'', JList [JInt 1, JInt 2, JInt 3]), (''uv'', JDict [])] ''uv'' = Some (JDict [])
   \<and> load_cube (JStr ''1.12.0'')
        (JDict (filter (\<lambda>(k, v). k \<noteq> ''uv'')
                  [(''size'', JList [JInt 1, JInt 2, JInt 3]), (''uv'', JDict [])]))
        [Key ''cubes'', Idx 0] False
      = Inr ((default_cube False)\<lparr>lc_size := JList [JInt 1, JInt 2, JInt 3]\<rparr>)
   \<and> load_cube (JStr ''1.12.0'')
        (JDict [(''size'', JList [JInt 1, JInt 2, JInt 3]), (''uv'', JDict [])])
        [Key ''cubes'', Idx 0] False
      = Inl (ImportingNotImplementedError ''uv dictionary'' ([Key ''cubes'', Idx 0] @ [Key ''uv'']))
   \<and> parser_version (JStr ''1.8.0'') = Inr ''1.8.0''
   \<and> load_cube (JStr ''1.8.0'')
        (JDict (filter (\<lambda>(k, v). k \<noteq> ''uv'')
                  [(''size'', JList [JInt 1, JInt 2, JInt 3]), (''uv'', JDict [])]))
        [Key ''cubes'', Idx 0] False
      = Inr ((default_cube False)\<lparr>lc_size := JList [JInt 1, JInt 2, JInt 3]\<rparr>)
   \<and> load_cube (JStr ''1.8.0'')
        (JDict [(''size'', JList [JInt 1, JInt 2, JInt 3]), (''uv'', JDict [])])
        [Key ''cubes'', Idx 0] False
      = Inl (FileIsNotAModelException
               (IsNotAnInstanceOf ([Key ''cubes'', Idx 0] @ [Key ''uv'']) ''uv'' [TList]))"
proof -
  let ?cube = "[(''size'', JList [JInt 1, JInt 2, JInt 3]), (''uv'', JDict [])]"
  have h1: "parser_version (JStr ''1.12.0'') = Inr ''1.12.0''"
    by (rule parser_version_1_12)
  have h2: "map_of ?cube ''uv'' = Some (JDict [])"
    by simp
  have h3: "load_cube (JStr ''1.12.0'') (JDict (filter (\<lambda>(k, v). k \<noteq> ''uv'') ?cube))
        [Key ''cubes'', Idx 0] False
      = Inr ((default_cube False)\<lparr>lc_size := JList [JInt 1, JInt 2, JInt 3]\<rparr>)"
    by code_simp
  have h4: "parser_version (JStr ''1.8.0'') = Inr ''1.8.0''"
    by (rule parser_version_1_8)
  have h5: "load_cube (JStr ''1.8.0'') (JDict (filter (\<lambda>(k, v). k \<noteq> ''uv'') ?cube))
        [Key ''cubes'', Idx 0] False
      = Inr ((default_cube False)\<lparr>lc_size := JList [JInt 1, JInt 2, JInt 3]\<rparr>)"
    by code_simp
  from uv_dictionary_not_implemented
    [where format_version = "JStr ''1.12.0''" and cube = ?cube and d = "[]"
       and cube_path = "[Key ''cubes'', Idx 0]" and default_mirror = False
       and r = "(default_cube False)\<lparr>lc_size := JList [JInt 1, JInt 2, JInt 3]\<rparr>"]
  have a: "load_cube (JStr ''1.12.0'') (JDict ?cube) [Key ''cubes'', Idx 0] False
      = Inl (ImportingNotImplementedError ''uv dictionary'' ([Key ''cubes'', Idx 0] @ [Key ''uv'']))"
    by (rule conjunct1 [THEN mp, OF _ conjI [OF h1 conjI [OF h2 h3]]])
  from uv_dictionary_not_implemented
    [where format_version = "JStr ''1.8.0''" and cube = ?cube and d = "[]"
       and cube_path = "[Key ''cubes'', Idx 0]" and default_mirror = False
       and r = "(default_cube False)\<lparr>lc_size := JList [JInt 1, JInt 2, JInt 3]\<rparr>"]
  have b: "load_cube (JStr ''1.8.0'') (JDict ?cube) [Key ''cubes'', Idx 0] False
      = Inl (FileIsNotAModelException
               (IsNotAnInstanceOf ([Key ''cubes'', Idx 0] @ [Key ''uv'']) ''uv'' [TList]))"
    by (rule conjunct2 [THEN mp, OF _ conjI [OF h4 conjI [OF h2 h5]]])
  show ?thesis by (intro conjI h1 h2 h3 h4 h5 a b)
qed




end
